theory Spec2Isabelle
  imports Complex_Main "HOL-Library.Multiset"
begin

section \<open>The host language: numbers, thrown values, number formatting\<close>

text \<open>
  The extension is TypeScript. A cost is a \<open>real\<close> (the value of the double), a token
  count an \<open>int\<close> (the relay reports whole tokens), a time stamp (\<open>Date.now()\<close>,
  \<open>new Date()\<close>) an \<open>int\<close> of milliseconds. The additions of the aggregation are the
  host's: the exact sum rounded to the nearest double (\<open>fadd\<close> below). The quotient
  \<open>used / total\<close>, the percentage and the digits of \<open>toFixed\<close> are taken exactly. \<open>NaN\<close>
  and the infinities are outside the model; JSON carries neither.

  A thrown value is either an \<open>Error\<close> object with its message (every \<open>throw\<close> of the
  repository, and the rejections of \<open>fetch\<close> and \<open>json()\<close>) or something that is not an
  \<open>Error\<close>, which \<open>err instanceof Error\<close> tells apart.
\<close>

datatype thrown = Error string | NonError

text \<open>\<open>x || 0\<close> on an optional number: absent and zero are both falsy.\<close>

definition or_zero :: "'a::zero option \<Rightarrow> 'a" where
  "or_zero x = (case x of None \<Rightarrow> 0 | Some v \<Rightarrow> if v = 0 then 0 else v)"

definition digit :: "nat \<Rightarrow> char" where
  "digit n = ''0123456789'' ! (n mod 10)"

fun showNat :: "nat \<Rightarrow> string" where
  "showNat n = (if n < 10 then [digit n] else showNat (n div 10) @ [digit (n mod 10)])"

declare showNat.simps [simp del]

definition showInt :: "int \<Rightarrow> string" where
  "showInt i = (if i < 0 then ''-'' @ showNat (nat (- i)) else showNat (nat i))"

text \<open>
  \<open>x.toFixed(f)\<close> for magnitudes below \<open>10^21\<close> (from there on the host prints exponent
  notation): the integer \<open>n\<close> nearest to \<open>x * 10^f\<close>, the larger one on a tie, printed
  with \<open>f\<close> digits after the point.
\<close>

definition toFixed :: "real \<Rightarrow> nat \<Rightarrow> string" where
  "toFixed x f =
     (let n = nat \<lfloor>\<bar>x\<bar> * 10 ^ f + 1 / 2\<rfloor>;
          whole = showNat (n div 10 ^ f);
          frac = showNat (n mod 10 ^ f)
      in (if x < 0 then ''-'' else '''') @ whole @
         (if f = 0 then '''' else ''.'' @ replicate (f - length frac) (CHR ''0'') @ frac))"

text \<open>\<open>Math.round\<close>: the nearest integer, a tie going up.\<close>

definition Math_round :: "real \<Rightarrow> int" where
  "Math_round x = \<lfloor>x + 1 / 2\<rfloor>"

subsection \<open>Addition of doubles\<close>

text \<open>
  IEEE 754 binary64, round to nearest, ties to even: a double is a multiple of \<open>2^e\<close>
  with a 53-bit factor, \<open>e\<close> not below \<open>-1074\<close>. \<open>bits n\<close> is the length of \<open>n\<close> in
  binary, \<open>floor_log2 x\<close> the integer part of the binary logarithm of a positive \<open>x\<close>.
  Overflow (a sum of \<open>2^1024\<close> or more, which the host turns into \<open>Infinity\<close>) is not
  modelled.
\<close>

fun bits :: "nat \<Rightarrow> nat" where
  "bits n = (if n = 0 then 0 else Suc (bits (n div 2)))"

declare bits.simps [simp del]

definition floor_log2 :: "real \<Rightarrow> int" where
  "floor_log2 x =
     (if 1 \<le> x then int (bits (nat \<lfloor>x\<rfloor>)) - 1 else - int (bits (nat (\<lceil>1 / x\<rceil> - 1))))"

definition pow2 :: "int \<Rightarrow> real" where
  "pow2 e = (if 0 \<le> e then 2 ^ nat e else 1 / 2 ^ nat (- e))"

definition round_half_even :: "real \<Rightarrow> int" where
  "round_half_even x =
     (let f = \<lfloor>x\<rfloor>; d = x - of_int f
      in if d < 1 / 2 then f else if 1 / 2 < d then f + 1 else if even f then f else f + 1)"

definition round_double :: "real \<Rightarrow> real" where
  "round_double x =
     (if x = 0 then 0
      else (let e = max (floor_log2 \<bar>x\<bar> - 52) (- 1074)
            in sgn x * of_int (round_half_even (\<bar>x\<bar> / pow2 e)) * pow2 e))"

text \<open>\<open>x + y\<close> on two doubles, and on two whole numbers held as doubles.\<close>

definition fadd :: "real \<Rightarrow> real \<Rightarrow> real" where
  "fadd x y = round_double (x + y)"

definition fadd_int :: "int \<Rightarrow> int \<Rightarrow> int" where
  "fadd_int a b = \<lfloor>fadd (of_int a) (of_int b)\<rfloor>"

section \<open>usage.ts: the usage client\<close>

subsection \<open>Type definitions\<close>

record CostInfo =
  used :: real
  total :: real

text \<open>\<open>DailyUsage\<close>, \<open>MonthlyUsage\<close> and \<open>TotalUsage\<close> have the same two fields.\<close>

record PeriodUsage =
  cost :: CostInfo
  tokens :: int

record UsageInfo =
  daily :: PeriodUsage
  monthly :: PeriodUsage
  total_usage :: PeriodUsage
  lastUpdate :: int
  error :: "string option"

record 'a ApiResponse =
  success :: bool
  data :: "'a option"

record KeyIdData =
  key_id :: string

record UsageTotal =
  allTokens :: "int option"

record UsageBlock =
  usage_total :: "UsageTotal option"

record Limits =
  currentDailyCost :: "real option"
  dailyCostLimit :: "real option"
  currentTotalCost :: "real option"
  totalCostLimit :: "real option"

record UserStatsData =
  usage :: "UsageBlock option"
  limits :: Limits

record Costs =
  costs_total :: "real option"

record ModelStatsData =
  model_allTokens :: "int option"
  costs :: "Costs option"

subsection \<open>The remote service\<close>

text \<open>
  What \<open>fetch\<close> gives for one POST: it rejects, or it resolves to a response with its
  \<open>ok\<close> flag, its status and its body, where \<open>json()\<close> either rejects or yields the
  envelope.
\<close>

datatype 'a http = Rejected thrown | Response bool nat "thrown + 'a ApiResponse"

datatype period = Daily | Monthly

datatype body = ApiKeyBody string | ApiIdBody string | ApiIdPeriodBody string period

type_synonym request = "string \<times> body"

text \<open>
  The service answers each of the three endpoints as a function of the base URL and the
  posted body. \<open>stats_rejects_first\<close> says which of the two parallel calls of
  \<open>Promise.all\<close> is seen to fail first when both fail.
\<close>

record remote =
  get_key_id :: "string \<Rightarrow> string \<Rightarrow> KeyIdData http"
  user_stats :: "string \<Rightarrow> string \<Rightarrow> UserStatsData http"
  user_model_stats :: "string \<Rightarrow> string \<Rightarrow> period \<Rightarrow> ModelStatsData list http"
  stats_rejects_first :: bool

subsection \<open>Cache state\<close>

definition CACHE_TTL_MS :: int where
  "CACHE_TTL_MS = 10 * 1000"

text \<open>
  The two module variables, and the list of the POSTs issued so far (kept by the model
  only, to say when the network is used).
\<close>

record cache =
  cachedResult :: "UsageInfo option"
  lastFetchTime :: int
  requests :: "request list"

definition initial_cache :: cache where
  "initial_cache = \<lparr>cachedResult = None, lastFetchTime = 0, requests = []\<rparr>"

definition clearCache :: "cache \<Rightarrow> cache" where
  "clearCache s = s\<lparr>cachedResult := None, lastFetchTime := 0\<rparr>"

subsection \<open>The three calls\<close>

definition getApiId ::
  "remote \<Rightarrow> string \<Rightarrow> string \<Rightarrow> request list \<Rightarrow> (thrown + string) \<times> request list" where
  "getApiId net baseUrl apiKey reqs =
     (let reqs' = reqs @ [(baseUrl @ ''/apiStats/api/get-key-id'', ApiKeyBody apiKey)]
      in case get_key_id net baseUrl apiKey of
           Rejected e \<Rightarrow> (Inl e, reqs')
         | Response ok status json \<Rightarrow>
             if \<not> ok then (Inl (Error (''Failed to get API ID: '' @ showNat status)), reqs')
             else (case json of
                     Inl e \<Rightarrow> (Inl e, reqs')
                   | Inr d \<Rightarrow>
                       (case data d of
                          None \<Rightarrow> (Inl (Error ''Invalid response from get-key-id API''), reqs')
                        | Some k \<Rightarrow>
                            if \<not> success d \<or> key_id k = []
                            then (Inl (Error ''Invalid response from get-key-id API''), reqs')
                            else (Inr (key_id k), reqs'))))"

definition getUserStats ::
  "remote \<Rightarrow> string \<Rightarrow> string \<Rightarrow> request list \<Rightarrow> (thrown + UserStatsData) \<times> request list" where
  "getUserStats net baseUrl apiId reqs =
     (let reqs' = reqs @ [(baseUrl @ ''/apiStats/api/user-stats'', ApiIdBody apiId)]
      in case user_stats net baseUrl apiId of
           Rejected e \<Rightarrow> (Inl e, reqs')
         | Response ok status json \<Rightarrow>
             if \<not> ok then (Inl (Error (''Failed to get user stats: '' @ showNat status)), reqs')
             else (case json of
                     Inl e \<Rightarrow> (Inl e, reqs')
                   | Inr d \<Rightarrow>
                       (case data d of
                          None \<Rightarrow> (Inl (Error ''Invalid response from user-stats API''), reqs')
                        | Some st \<Rightarrow>
                            if \<not> success d
                            then (Inl (Error ''Invalid response from user-stats API''), reqs')
                            else (Inr st, reqs'))))"

definition getUserModelStats ::
  "remote \<Rightarrow> string \<Rightarrow> string \<Rightarrow> period \<Rightarrow> request list
     \<Rightarrow> (thrown + ModelStatsData list) \<times> request list" where
  "getUserModelStats net baseUrl apiId p reqs =
     (let reqs' = reqs @ [(baseUrl @ ''/apiStats/api/user-model-stats'', ApiIdPeriodBody apiId p)]
      in case user_model_stats net baseUrl apiId p of
           Rejected e \<Rightarrow> (Inl e, reqs')
         | Response ok status json \<Rightarrow>
             if \<not> ok
             then (Inl (Error (''Failed to get user model stats: '' @ showNat status)), reqs')
             else (case json of
                     Inl e \<Rightarrow> (Inl e, reqs')
                   | Inr d \<Rightarrow>
                       (case data d of
                          None \<Rightarrow> (Inl (Error ''Invalid response from user-model-stats API''), reqs')
                        | Some ms \<Rightarrow>
                            if \<not> success d
                            then (Inl (Error ''Invalid response from user-model-stats API''), reqs')
                            else (Inr ms, reqs'))))"

subsection \<open>fetchUsageData\<close>

record Totals =
  acc_tokens :: int
  acc_cost :: real

text \<open>
  The \<open>reduce\<close> over the model breakdown, left to right from \<open>{tokens: 0, cost: 0}\<close>,
  each \<open>+=\<close> an addition of doubles.
\<close>

definition monthlyTotals :: "ModelStatsData list \<Rightarrow> Totals" where
  "monthlyTotals monthlyModelStats =
     fold (\<lambda>model acc.
             acc\<lparr>acc_tokens := fadd_int (acc_tokens acc) (or_zero (model_allTokens model)),
                 acc_cost := fadd (acc_cost acc)
                   (or_zero (case costs model of None \<Rightarrow> None | Some c \<Rightarrow> costs_total c))\<rparr>)
          monthlyModelStats \<lparr>acc_tokens = 0, acc_cost = 0\<rparr>"

text \<open>\<open>usage?.total?.allTokens\<close>\<close>

definition usage_allTokens :: "UserStatsData \<Rightarrow> int option" where
  "usage_allTokens stats =
     (case usage stats of
        None \<Rightarrow> None
      | Some u \<Rightarrow> (case usage_total u of None \<Rightarrow> None | Some t \<Rightarrow> allTokens t))"

text \<open>
  \<open>fetchUsageData\<close>; \<open>done\<close> is the clock when the snapshot is built. Both parallel
  calls are issued before either is awaited.
\<close>

definition fetchUsageData ::
  "remote \<Rightarrow> int \<Rightarrow> string \<Rightarrow> string \<Rightarrow> request list \<Rightarrow> (thrown + UsageInfo) \<times> request list" where
  "fetchUsageData net done baseUrl apiKey reqs =
     (case getApiId net baseUrl apiKey reqs of
        (Inl e, reqs1) \<Rightarrow> (Inl e, reqs1)
      | (Inr apiId, reqs1) \<Rightarrow>
          (case getUserStats net baseUrl apiId reqs1 of
             (r1, reqs2) \<Rightarrow>
               (case getUserModelStats net baseUrl apiId Monthly reqs2 of
                  (r2, reqs3) \<Rightarrow>
                    (case (r1, r2) of
                       (Inl e1, Inl e2) \<Rightarrow>
                         (Inl (if stats_rejects_first net then e1 else e2), reqs3)
                     | (Inl e1, Inr _) \<Rightarrow> (Inl e1, reqs3)
                     | (Inr _, Inl e2) \<Rightarrow> (Inl e2, reqs3)
                     | (Inr stats, Inr monthlyModelStats) \<Rightarrow>
                         (Inr \<lparr>daily =
                                 \<lparr>cost = \<lparr>used = or_zero (currentDailyCost (limits stats)),
                                           total = or_zero (dailyCostLimit (limits stats))\<rparr>,
                                  tokens = or_zero (usage_allTokens stats)\<rparr>,
                               monthly =
                                 \<lparr>cost = \<lparr>used = acc_cost (monthlyTotals monthlyModelStats),
                                           total = 0\<rparr>,
                                  tokens = acc_tokens (monthlyTotals monthlyModelStats)\<rparr>,
                               total_usage =
                                 \<lparr>cost = \<lparr>used = or_zero (currentTotalCost (limits stats)),
                                           total = or_zero (totalCostLimit (limits stats))\<rparr>,
                                  tokens = or_zero (usage_allTokens stats)\<rparr>,
                               lastUpdate = done,
                               error = None\<rparr>, reqs3)))))"

subsection \<open>getUsageInfo\<close>

text \<open>
  \<open>now\<close> is \<open>Date.now()\<close> on entry; \<open>later\<close> is the clock read by \<open>new Date()\<close>
  once the fetch has settled, in \<open>fetchUsageData\<close> or in the \<open>catch\<close>.
\<close>

definition getUsageInfo ::
  "remote \<Rightarrow> int \<Rightarrow> int \<Rightarrow> string \<Rightarrow> string \<Rightarrow> cache \<Rightarrow> (thrown + UsageInfo) \<times> cache" where
  "getUsageInfo net now later baseUrl apiKey s =
     (if baseUrl = [] \<or> apiKey = [] then (Inl (Error ''Not configured''), s)
      else
        if cachedResult s \<noteq> None \<and> now - lastFetchTime s < CACHE_TTL_MS
        then (Inr (the (cachedResult s)), s)
        else
          (case fetchUsageData net later baseUrl apiKey (requests s) of
             (Inr result, reqs) \<Rightarrow>
               (Inr result, s\<lparr>cachedResult := Some result, lastFetchTime := now, requests := reqs\<rparr>)
           | (Inl err, reqs) \<Rightarrow>
               (case cachedResult s of
                  Some c \<Rightarrow>
                    (Inr (c\<lparr>lastUpdate := later,
                            error := Some (case err of Error m \<Rightarrow> m | NonError \<Rightarrow> ''API Error'')\<rparr>),
                     s\<lparr>requests := reqs\<rparr>)
                | None \<Rightarrow> (Inl err, s\<lparr>requests := reqs\<rparr>))))"

section \<open>statusBar.ts: the status bar manager\<close>

text \<open>
  The status bar item of the host: its text, tooltip, background colour (a theme colour
  id, or undefined) and command. A tooltip is plain text or Markdown; the Markdown that
  \<open>updateTooltip\<close> builds is kept by its interpolated parts (three period sections and
  the time stamp of the footer), the fixed markup around them left out.
\<close>

datatype glyph = DarkShade | LightShade

record Section =
  heading :: string
  right_cell :: string
  bar_row :: "glyph list option"
  cost_text :: string
  tokens_text :: string

datatype tooltip =
    Unset
  | Plain string
  | Markdown string
  | UsageMarkdown Section Section Section int

record statusBarItem =
  item_text :: string
  tooltip :: tooltip
  backgroundColor :: "string option"
  command :: string

definition new_StatusBarManager :: statusBarItem where
  "new_StatusBarManager =
     \<lparr>item_text = ''$(credit-card)'', tooltip = Unset, backgroundColor = None,
      command = ''crsStatus.refresh''\<rparr>"

definition formatCurrency :: "real \<Rightarrow> string" where
  "formatCurrency v = ''$'' @ toFixed v 2"

definition formatTokens :: "int \<Rightarrow> string" where
  "formatTokens t =
     (if t \<ge> 1000000 then toFixed (real_of_int t / 1000000) 2 @ ''M''
      else if t \<ge> 1000 then toFixed (real_of_int t / 1000) 2 @ ''K''
      else showInt t)"

text \<open>\<open>String.prototype.repeat\<close> raises a \<open>RangeError\<close> on a negative count.\<close>

definition repeat_str :: "'a list \<Rightarrow> int \<Rightarrow> thrown + 'a list" where
  "repeat_str s n =
     (if n < 0 then Inl (Error (''Invalid count value: '' @ showInt n))
      else Inr (concat (replicate (nat n) s)))"

record ProgressBar =
  bar :: "glyph list"
  bar_text :: string

definition generateProgressBar :: "real \<Rightarrow> real \<Rightarrow> int \<Rightarrow> thrown + ProgressBar option" where
  "generateProgressBar u t width =
     (if t \<le> 0 then Inr None
      else
        (let percentage = min (u / t) 1;
             filled = Math_round (percentage * real_of_int width);
             empty = width - filled
         in case repeat_str [DarkShade] filled of
              Inl e \<Rightarrow> Inl e
            | Inr a \<Rightarrow>
                (case repeat_str [LightShade] empty of
                   Inl e \<Rightarrow> Inl e
                 | Inr b \<Rightarrow>
                     Inr (Some \<lparr>bar = a @ b, bar_text = toFixed (percentage * 100) 1 @ ''%''\<rparr>))))"

record Limit = CostInfo +
  name :: string

record Constrained = Limit +
  percentage :: real

text \<open>The loop of \<open>getMostConstrainedLimit\<close> over \<open>limits[1..]\<close>.\<close>

fun scan_limits :: "Limit list \<Rightarrow> Limit \<Rightarrow> real \<Rightarrow> Limit" where
  "scan_limits [] mostConstrained smallestRemaining = mostConstrained"
| "scan_limits (l # ls) mostConstrained smallestRemaining =
     (let remaining = total l - used l
      in if remaining < smallestRemaining then scan_limits ls l remaining
         else scan_limits ls mostConstrained smallestRemaining)"

text \<open>The list \<open>limits\<close> after the three pushes.\<close>

definition pushed_limits :: "UsageInfo \<Rightarrow> Limit list" where
  "pushed_limits usageInfo =
     (if total (cost (daily usageInfo)) > 0
      then [\<lparr>used = used (cost (daily usageInfo)), total = total (cost (daily usageInfo)),
             name = ''Daily''\<rparr>] else []) @
     (if total (cost (monthly usageInfo)) > 0
      then [\<lparr>used = used (cost (monthly usageInfo)), total = total (cost (monthly usageInfo)),
             name = ''Monthly''\<rparr>] else []) @
     (if total (cost (total_usage usageInfo)) > 0
      then [\<lparr>used = used (cost (total_usage usageInfo)),
             total = total (cost (total_usage usageInfo)), name = ''Total''\<rparr>] else [])"

definition getMostConstrainedLimit :: "UsageInfo \<Rightarrow> Constrained option" where
  "getMostConstrainedLimit usageInfo =
     (case pushed_limits usageInfo of
        [] \<Rightarrow> None
      | l0 # rest \<Rightarrow>
          (let mostConstrained = scan_limits rest l0 (total l0 - used l0)
           in Some \<lparr>used = used mostConstrained, total = total mostConstrained,
                    name = name mostConstrained,
                    percentage = used mostConstrained / total mostConstrained * 100\<rparr>))"

definition formatStatusBarText :: "UsageInfo \<Rightarrow> bool \<Rightarrow> string" where
  "formatStatusBarText usageInfo showAmount =
     (case getMostConstrainedLimit usageInfo of
        None \<Rightarrow> ''$(credit-card)''
      | Some constrained \<Rightarrow>
          if \<not> showAmount
          then ''$(credit-card) '' @ toFixed (percentage constrained) 1 @ ''%''
          else ''$(credit-card) '' @ toFixed (percentage constrained) 1 @ ''% ($''
                 @ toFixed (used constrained) 1 @ ''/$'' @ toFixed (total constrained) 1 @ '')'')"

text \<open>The two settings \<open>updateTooltip\<close> reads, with the rest of the configuration.\<close>

record config =
  crsStatus_baseUrl :: string
  crsStatus_apiKey :: string
  crsStatus_refreshInterval :: int
  crsStatus_showUsageInStatusBar :: bool
  crsStatus_showAmountInStatusBar :: bool

text \<open>One period's table of the tooltip, from its progress bar.\<close>

definition section_of :: "string \<Rightarrow> PeriodUsage \<Rightarrow> ProgressBar option \<Rightarrow> Section" where
  "section_of title p progressBar =
     \<lparr>heading = title,
      right_cell = (case progressBar of Some b \<Rightarrow> bar_text b | None \<Rightarrow> ''Unlimited''),
      bar_row = (case progressBar of Some b \<Rightarrow> Some (bar b) | None \<Rightarrow> None),
      cost_text =
        (if total (cost p) > 0
         then formatCurrency (used (cost p)) @ '' / '' @ formatCurrency (total (cost p))
         else formatCurrency (used (cost p))),
      tokens_text = formatTokens (tokens p)\<rparr>"

text \<open>
  \<open>updateTooltip\<close>: the text and the background are written first; a \<open>RangeError\<close> of a
  progress bar leaves the method before the tooltip is assigned.
\<close>

definition updateTooltip :: "config \<Rightarrow> UsageInfo \<Rightarrow> statusBarItem \<Rightarrow> thrown option \<times> statusBarItem" where
  "updateTooltip cfg usageInfo item =
     (let item1 = item\<lparr>item_text :=
                         (if crsStatus_showUsageInStatusBar cfg
                          then formatStatusBarText usageInfo (crsStatus_showAmountInStatusBar cfg)
                          else ''$(credit-card)''),
                       backgroundColor := None\<rparr>
      in case generateProgressBar (used (cost (daily usageInfo)))
                (total (cost (daily usageInfo))) 25 of
           Inl e \<Rightarrow> (Some e, item1)
         | Inr dailyProgressBar \<Rightarrow>
             (case generateProgressBar (used (cost (monthly usageInfo)))
                     (total (cost (monthly usageInfo))) 25 of
                Inl e \<Rightarrow> (Some e, item1)
              | Inr monthlyProgressBar \<Rightarrow>
                  (case generateProgressBar (used (cost (total_usage usageInfo)))
                          (total (cost (total_usage usageInfo))) 25 of
                     Inl e \<Rightarrow> (Some e, item1)
                   | Inr totalProgressBar \<Rightarrow>
                       (None,
                        item1\<lparr>tooltip :=
                                UsageMarkdown
                                  (section_of ''Daily'' (daily usageInfo) dailyProgressBar)
                                  (section_of ''Monthly'' (monthly usageInfo) monthlyProgressBar)
                                  (section_of ''Total'' (total_usage usageInfo) totalProgressBar)
                                  (lastUpdate usageInfo)\<rparr>))))"

definition showLoading :: "statusBarItem \<Rightarrow> statusBarItem" where
  "showLoading item =
     item\<lparr>item_text := ''$(sync~spin)'', tooltip := Plain ''Loading CRS usage data...'',
          backgroundColor := None\<rparr>"

definition showError :: "string \<Rightarrow> statusBarItem \<Rightarrow> statusBarItem" where
  "showError message item =
     item\<lparr>item_text := ''$(error) Error'',
          backgroundColor := Some ''statusBarItem.errorBackground'',
          tooltip := Markdown (''**CRS Status Error**'' @ [CHR 0x0A, CHR 0x0A] @ message)\<rparr>"

definition showConfigRequired :: "statusBarItem \<Rightarrow> statusBarItem" where
  "showConfigRequired item =
     item\<lparr>item_text := ''$(debug-disconnect) Invalid Config'',
          backgroundColor := Some ''statusBarItem.errorBackground'',
          command := ''crsStatus.openSettings'',
          tooltip := Markdown (''**CRS Status**'' @ [CHR 0x0A, CHR 0x0A]
                                @ ''Click to configure API settings'')\<rparr>"

definition showReady :: "statusBarItem \<Rightarrow> statusBarItem" where
  "showReady item =
     item\<lparr>item_text := ''$(credit-card)'', backgroundColor := None,
          command := ''crsStatus.refresh''\<rparr>"

section \<open>extension.ts: the refresh\<close>

record extension =
  statusBarManager :: "statusBarItem option"
  configuration :: config
  usage_module :: cache

definition isConfigured :: "config \<Rightarrow> bool" where
  "isConfigured cfg \<longleftrightarrow> length (crsStatus_baseUrl cfg) > 0 \<and> length (crsStatus_apiKey cfg) > 0"

text \<open>
  \<open>refreshUsageData\<close>. A snapshot whose \<open>error\<close> is a non-empty string is thrown as a
  new \<open>Error\<close> and lands in the \<open>catch\<close>, as does whatever \<open>getUsageInfo\<close> or
  \<open>updateTooltip\<close> throws.
\<close>

definition refreshUsageData :: "remote \<Rightarrow> int \<Rightarrow> int \<Rightarrow> bool \<Rightarrow> extension \<Rightarrow> extension" where
  "refreshUsageData net now later forceRefresh ext =
     (case statusBarManager ext of
        None \<Rightarrow> ext
      | Some item \<Rightarrow>
          if \<not> isConfigured (configuration ext)
          then ext\<lparr>statusBarManager := Some (showConfigRequired item)\<rparr>
          else
            (let c0 = (if forceRefresh then clearCache (usage_module ext) else usage_module ext);
                 item1 = showLoading item;
                 caught = (\<lambda>e i. showError (case e of Error m \<Rightarrow> m | NonError \<Rightarrow> ''Unknown error'') i)
             in case getUsageInfo net now later (crsStatus_baseUrl (configuration ext))
                       (crsStatus_apiKey (configuration ext)) c0 of
                  (Inl e, c1) \<Rightarrow>
                    ext\<lparr>statusBarManager := Some (caught e item1), usage_module := c1\<rparr>
                | (Inr usageInfo, c1) \<Rightarrow>
                    (case (case error usageInfo of None \<Rightarrow> None
                           | Some m \<Rightarrow> if m = [] then None else Some m) of
                       Some m \<Rightarrow>
                         ext\<lparr>statusBarManager := Some (caught (Error m) item1),
                             usage_module := c1\<rparr>
                     | None \<Rightarrow>
                         (case updateTooltip (configuration ext) usageInfo (showReady item1) of
                            (Some e, item2) \<Rightarrow>
                              ext\<lparr>statusBarManager := Some (caught e item2), usage_module := c1\<rparr>
                          | (None, item2) \<Rightarrow>
                              ext\<lparr>statusBarManager := Some item2, usage_module := c1\<rparr>))))"

section \<open>Observing the network, and example data\<close>

text \<open>
  Every run of \<open>fetchUsageData\<close> starts with the POST that carries the API key, and no
  other request carries it: the number of those requests in the list counts the
  round-trips to the service.
\<close>

definition round_trips :: "request list \<Rightarrow> nat" where
  "round_trips reqs =
     length (filter (\<lambda>r. case snd r of ApiKeyBody _ \<Rightarrow> True | _ \<Rightarrow> False) reqs)"

definition example_snapshot :: UsageInfo where
  "example_snapshot =
     \<lparr>daily = \<lparr>cost = \<lparr>used = 80, total = 100\<rparr>, tokens = 50000\<rparr>,
      monthly = \<lparr>cost = \<lparr>used = 0, total = 0\<rparr>, tokens = 0\<rparr>,
      total_usage = \<lparr>cost = \<lparr>used = 450, total = 500\<rparr>, tokens = 50000\<rparr>,
      lastUpdate = 1000, error = None\<rparr>"

text \<open>A service that cannot be reached, and one that answers.\<close>

definition remote_down :: remote where
  "remote_down =
     \<lparr>get_key_id = (\<lambda>_ _. Rejected (Error ''fetch failed'')),
      user_stats = (\<lambda>_ _. Rejected (Error ''fetch failed'')),
      user_model_stats = (\<lambda>_ _ _. Rejected (Error ''fetch failed'')),
      stats_rejects_first = True\<rparr>"

definition example_stats :: UserStatsData where
  "example_stats =
     \<lparr>usage = Some \<lparr>usage_total = Some \<lparr>allTokens = Some 50000\<rparr>\<rparr>,
      limits = \<lparr>currentDailyCost = Some (15 / 2), dailyCostLimit = Some 10,
                currentTotalCost = Some 42, totalCostLimit = None\<rparr>\<rparr>"

definition example_models :: "ModelStatsData list" where
  "example_models =
     [\<lparr>model_allTokens = Some 12000, costs = Some \<lparr>costs_total = Some 3\<rparr>\<rparr>,
      \<lparr>model_allTokens = Some 345, costs = Some \<lparr>costs_total = Some (1 / 4)\<rparr>\<rparr>,
      \<lparr>model_allTokens = None, costs = None\<rparr>]"

definition remote_up :: remote where
  "remote_up =
     \<lparr>get_key_id =
        (\<lambda>_ _. Response True 200 (Inr \<lparr>success = True, data = Some \<lparr>key_id = ''acct-1''\<rparr>\<rparr>)),
      user_stats =
        (\<lambda>_ _. Response True 200 (Inr \<lparr>success = True, data = Some example_stats\<rparr>)),
      user_model_stats =
        (\<lambda>_ _ _. Response True 200 (Inr \<lparr>success = True, data = Some example_models\<rparr>)),
      stats_rejects_first = True\<rparr>"

text \<open>A cache filled at time 1000.\<close>

definition filled_cache :: cache where
  "filled_cache = \<lparr>cachedResult = Some example_snapshot, lastFetchTime = 1000, requests = []\<rparr>"

text \<open>What one fetch from \<open>remote_up\<close>, finished at time 1200, returns and posts.\<close>

definition fetched_snapshot :: UsageInfo where
  "fetched_snapshot =
     \<lparr>daily = \<lparr>cost = \<lparr>used = 15 / 2, total = 10\<rparr>, tokens = 50000\<rparr>,
      monthly = \<lparr>cost = \<lparr>used = 13 / 4, total = 0\<rparr>, tokens = 12345\<rparr>,
      total_usage = \<lparr>cost = \<lparr>used = 42, total = 0\<rparr>, tokens = 50000\<rparr>,
      lastUpdate = 1200, error = None\<rparr>"

definition fetch_requests :: "request list" where
  "fetch_requests =
     [(''https://crs.example/apiStats/api/get-key-id'', ApiKeyBody ''cr_key''),
      (''https://crs.example/apiStats/api/user-stats'', ApiIdBody ''acct-1''),
      (''https://crs.example/apiStats/api/user-model-stats'', ApiIdPeriodBody ''acct-1'' Monthly)]"



text \<open>
  One entry of the model breakdown as the aggregation reads it: its tokens and its cost,
  an absent field counting as 0.
\<close>

definition entry_tokens :: "ModelStatsData \<Rightarrow> int" where
  "entry_tokens m = (case model_allTokens m of None \<Rightarrow> 0 | Some v \<Rightarrow> v)"

definition entry_cost :: "ModelStatsData \<Rightarrow> real" where
  "entry_cost m =
     (case costs m of None \<Rightarrow> 0 | Some c \<Rightarrow> (case costs_total c of None \<Rightarrow> 0 | Some v \<Rightarrow> v))"

text \<open>Responses without a negative number.\<close>

definition nonneg :: "'a::{zero,ord} option \<Rightarrow> bool" where
  "nonneg x = (case x of None \<Rightarrow> True | Some v \<Rightarrow> 0 \<le> v)"

definition nonneg_stats :: "UserStatsData \<Rightarrow> bool" where
  "nonneg_stats stats \<longleftrightarrow>
     nonneg (usage_allTokens stats) \<and> nonneg (currentDailyCost (limits stats))
     \<and> nonneg (dailyCostLimit (limits stats)) \<and> nonneg (currentTotalCost (limits stats))
     \<and> nonneg (totalCostLimit (limits stats))"

definition nonneg_model :: "ModelStatsData \<Rightarrow> bool" where
  "nonneg_model m \<longleftrightarrow> 0 \<le> entry_tokens m \<and> 0 \<le> entry_cost m"

text \<open>A service that reports a negative daily cost (a credit).\<close>

definition remote_credit :: remote where
  "remote_credit =
     remote_up\<lparr>user_stats :=
       (\<lambda>_ _. Response True 200
          (Inr \<lparr>success = True,
                data = Some (example_stats\<lparr>limits :=
                  (limits example_stats)\<lparr>currentDailyCost := Some (- 1)\<rparr>\<rparr>)\<rparr>))\<rparr>"

text \<open>An activated, configured extension over the filled cache.\<close>

definition example_config :: config where
  "example_config =
     \<lparr>crsStatus_baseUrl = ''https://crs.example'', crsStatus_apiKey = ''cr_key'',
      crsStatus_refreshInterval = 60, crsStatus_showUsageInStatusBar = True,
      crsStatus_showAmountInStatusBar = True\<rparr>"

definition example_extension :: extension where
  "example_extension =
     \<lparr>statusBarManager = Some new_StatusBarManager, configuration = example_config,
      usage_module = filled_cache\<rparr>"

text \<open>The status bar item that shows \<open>example_snapshot\<close>.\<close>

definition ready_item :: statusBarItem where
  "ready_item =
     \<lparr>item_text = ''$(credit-card) 80.0% ($80.0/$100.0)'',
      tooltip =
        UsageMarkdown
          \<lparr>heading = ''Daily'', right_cell = ''80.0%'',
           bar_row = Some (replicate 20 DarkShade @ replicate 5 LightShade),
           cost_text = ''$80.00 / $100.00'', tokens_text = ''50.00K''\<rparr>
          \<lparr>heading = ''Monthly'', right_cell = ''Unlimited'', bar_row = None,
           cost_text = ''$0.00'', tokens_text = ''0''\<rparr>
          \<lparr>heading = ''Total'', right_cell = ''90.0%'',
           bar_row = Some (replicate 23 DarkShade @ replicate 2 LightShade),
           cost_text = ''$450.00 / $500.00'', tokens_text = ''50.00K''\<rparr>
          1000,
      backgroundColor = None, command = ''crsStatus.refresh''\<rparr>"

text \<open>
  A breakdown whose costs are the doubles that the JSON numbers \<open>0.1\<close>, \<open>0.2\<close> and
  \<open>0.3\<close> parse to, and the service that answers with a given breakdown.
\<close>

definition tenths_models :: "ModelStatsData list" where
  "tenths_models =
     [\<lparr>model_allTokens = Some 1, costs = Some \<lparr>costs_total = Some (round_double (1 / 10))\<rparr>\<rparr>,
      \<lparr>model_allTokens = Some 2, costs = Some \<lparr>costs_total = Some (round_double (1 / 5))\<rparr>\<rparr>,
      \<lparr>model_allTokens = Some 3, costs = Some \<lparr>costs_total = Some (round_double (3 / 10))\<rparr>\<rparr>]"

definition remote_with :: "ModelStatsData list \<Rightarrow> remote" where
  "remote_with models =
     remote_up\<lparr>user_model_stats :=
       (\<lambda>_ _ _. Response True 200 (Inr \<lparr>success = True, data = Some models\<rparr>))\<rparr>"

section \<open>The requests of one fetch\<close>

lemma getApiId_requests:
  "snd (getApiId net baseUrl apiKey reqs)
     = reqs @ [(baseUrl @ ''/apiStats/api/get-key-id'', ApiKeyBody apiKey)]"
  by (simp add: getApiId_def Let_def split: http.splits sum.splits option.splits)

lemma getUserStats_requests:
  "snd (getUserStats net baseUrl apiId reqs)
     = reqs @ [(baseUrl @ ''/apiStats/api/user-stats'', ApiIdBody apiId)]"
  by (simp add: getUserStats_def Let_def split: http.splits sum.splits option.splits)

lemma getUserModelStats_requests:
  "snd (getUserModelStats net baseUrl apiId p reqs)
     = reqs @ [(baseUrl @ ''/apiStats/api/user-model-stats'', ApiIdPeriodBody apiId p)]"
  by (simp add: getUserModelStats_def Let_def split: http.splits sum.splits option.splits)

lemma fetchUsageData_requests:
  "snd (fetchUsageData net done baseUrl apiKey reqs)
     = reqs @ [(baseUrl @ ''/apiStats/api/get-key-id'', ApiKeyBody apiKey)]
   \<or> (\<exists>apiId. snd (fetchUsageData net done baseUrl apiKey reqs)
         = reqs @ [(baseUrl @ ''/apiStats/api/get-key-id'', ApiKeyBody apiKey),
                   (baseUrl @ ''/apiStats/api/user-stats'', ApiIdBody apiId),
                   (baseUrl @ ''/apiStats/api/user-model-stats'',
                    ApiIdPeriodBody apiId Monthly)])"
proof (cases "getApiId net baseUrl apiKey reqs")
  case (Pair r reqs1)
  then have r1: "reqs1 = reqs @ [(baseUrl @ ''/apiStats/api/get-key-id'', ApiKeyBody apiKey)]"
    using getApiId_requests [of net baseUrl apiKey reqs] by simp
  show ?thesis
  proof (cases r)
    case (Inl e)
    with Pair r1 show ?thesis by (simp add: fetchUsageData_def)
  next
    case (Inr apiId)
    obtain a reqs2 where s: "getUserStats net baseUrl apiId reqs1 = (a, reqs2)"
      by (cases "getUserStats net baseUrl apiId reqs1")
    obtain b reqs3 where m: "getUserModelStats net baseUrl apiId Monthly reqs2 = (b, reqs3)"
      by (cases "getUserModelStats net baseUrl apiId Monthly reqs2")
    have r2: "reqs2 = reqs1 @ [(baseUrl @ ''/apiStats/api/user-stats'', ApiIdBody apiId)]"
      using getUserStats_requests [of net baseUrl apiId reqs1] s by simp
    have r3: "reqs3 = reqs2 @ [(baseUrl @ ''/apiStats/api/user-model-stats'',
                               ApiIdPeriodBody apiId Monthly)]"
      using getUserModelStats_requests [of net baseUrl apiId Monthly reqs2] m by simp
    have "snd (fetchUsageData net done baseUrl apiKey reqs) = reqs3"
      using Pair Inr s m by (simp add: fetchUsageData_def split: sum.splits)
    with r1 r2 r3 show ?thesis by auto
  qed
qed

lemma fetchUsageData_round_trips:
  "round_trips (snd (fetchUsageData net done baseUrl apiKey reqs)) = round_trips reqs + 1"
  using fetchUsageData_requests [of net "done" baseUrl apiKey reqs]
  by (auto simp: round_trips_def)

lemma remote_down_fetch:
  "fetchUsageData remote_down later ''https://crs.example'' ''cr_key'' reqs
     = (Inl (Error ''fetch failed''),
        reqs @ [(''https://crs.example/apiStats/api/get-key-id'', ApiKeyBody ''cr_key'')])"
  by (simp add: fetchUsageData_def getApiId_def remote_down_def)

section \<open>Sums of doubles\<close>

lemma bits_bound: "n < 2 ^ k \<Longrightarrow> bits n \<le> k"
proof (induction k arbitrary: n)
  case 0
  then show ?case by (simp add: bits.simps)
next
  case (Suc k)
  show ?case
  proof (cases "n = 0")
    case True
    then show ?thesis by (simp add: bits.simps)
  next
    case False
    from Suc.prems have "n div 2 < 2 ^ k" by simp
    then have "bits (n div 2) \<le> k" by (rule Suc.IH)
    with False show ?thesis by (subst bits.simps) simp
  qed
qed

lemma round_half_even_of_int: "round_half_even (of_int i) = i"
  by (simp add: round_half_even_def)

lemma round_half_even_nonneg: "0 \<le> x \<Longrightarrow> 0 \<le> round_half_even x"
  by (simp add: round_half_even_def Let_def)

lemma pow2_pos: "0 < pow2 e"
  by (simp add: pow2_def)

lemma round_double_nonneg:
  assumes "0 \<le> x"
  shows "0 \<le> round_double x"
proof (cases "x = 0")
  case True
  then show ?thesis by (simp add: round_double_def)
next
  case False
  with assms have pos: "0 < x" by simp
  define e where "e = max (floor_log2 \<bar>x\<bar> - 52) (- 1074)"
  have "0 \<le> \<bar>x\<bar> / pow2 e" using pow2_pos [of e] by simp
  then have "0 \<le> round_half_even (\<bar>x\<bar> / pow2 e)" by (rule round_half_even_nonneg)
  then have "0 \<le> real_of_int (round_half_even (\<bar>x\<bar> / pow2 e)) * pow2 e"
    using pow2_pos [of e] by simp
  with pos False show ?thesis
    by (simp add: round_double_def Let_def e_def)
qed

text \<open>Whole numbers below \<open>2^53\<close> in magnitude are doubles.\<close>

lemma round_double_of_int:
  assumes "\<bar>n\<bar> < 2 ^ 53"
  shows "round_double (of_int n) = of_int n"
proof (cases "n = 0")
  case True
  then show ?thesis by (simp add: round_double_def)
next
  case False
  define a where "a = nat \<bar>n\<bar>"
  have a: "0 < a" "a < 2 ^ 53" "int a = \<bar>n\<bar>"
    using False assms by (simp_all add: a_def nat_less_iff)
  have abs: "\<bar>real_of_int n\<bar> = real a"
    using a(3) by (metis of_int_abs of_int_of_nat_eq)
  have "bits a \<le> 53" using a(2) by (rule bits_bound)
  have fl: "floor_log2 (real a) = int (bits a) - 1"
    using a(1) by (simp add: floor_log2_def)
  define k where "k = nat (- max (int (bits a) - 1 - 52) (- 1074))"
  have e: "max (floor_log2 (real a) - 52) (- 1074) = - int k"
    using \<open>bits a \<le> 53\<close> by (simp add: fl k_def)
  have p: "pow2 (- int k) = 1 / 2 ^ k"
    by (cases "k = 0") (simp_all add: pow2_def)
  have "real a / pow2 (- int k) = real_of_int (int a * 2 ^ k)"
    by (simp add: p)
  then have r: "round_half_even (real a / pow2 (- int k)) = int a * 2 ^ k"
    using round_half_even_of_int [of "int a * 2 ^ k"] by simp
  have "round_double (real_of_int n)
          = sgn (real_of_int n)
            * real_of_int (round_half_even (\<bar>real_of_int n\<bar>
                / pow2 (max (floor_log2 \<bar>real_of_int n\<bar> - 52) (- 1074))))
            * pow2 (max (floor_log2 \<bar>real_of_int n\<bar> - 52) (- 1074))"
    using False by (simp add: round_double_def Let_def)
  also have "\<dots> = sgn (real_of_int n)
            * real_of_int (round_half_even (real a / pow2 (- int k))) * pow2 (- int k)"
    by (simp only: abs e)
  also have "\<dots> = sgn (real_of_int n) * real_of_int (int a * 2 ^ k) * (1 / 2 ^ k)"
    by (simp only: r, simp only: p)
  also have "\<dots> = sgn (real_of_int n) * real a" by simp
  also have "\<dots> = real_of_int n"
    using abs by (metis mult_sgn_abs)
  finally show ?thesis .
qed

lemma fadd_nonneg: "0 \<le> x \<Longrightarrow> 0 \<le> y \<Longrightarrow> 0 \<le> fadd x y"
  by (simp add: fadd_def round_double_nonneg)

lemma fadd_int_nonneg: "0 \<le> a \<Longrightarrow> 0 \<le> b \<Longrightarrow> 0 \<le> fadd_int a b"
  by (simp add: fadd_int_def fadd_nonneg)

lemma fadd_int_exact:
  assumes "0 \<le> a" and "0 \<le> b" and "a + b < 2 ^ 53"
  shows "fadd_int a b = a + b"
proof -
  have "\<bar>a + b\<bar> < 2 ^ 53" using assms by simp
  then have "round_double (of_int (a + b)) = of_int (a + b)" by (rule round_double_of_int)
  then show ?thesis by (simp add: fadd_int_def fadd_def)
qed

lemma foldl_fadd_nonneg: "0 \<le> a \<Longrightarrow> \<forall>x \<in> set xs. 0 \<le> x \<Longrightarrow> 0 \<le> foldl fadd a xs"
  by (induction xs arbitrary: a) (simp_all add: fadd_nonneg)

lemma foldl_fadd_int_nonneg:
  "0 \<le> a \<Longrightarrow> \<forall>x \<in> set xs. 0 \<le> x \<Longrightarrow> 0 \<le> foldl fadd_int a xs"
  by (induction xs arbitrary: a) (simp_all add: fadd_int_nonneg)

lemma foldl_fadd_int_exact:
  "0 \<le> a \<Longrightarrow> \<forall>x \<in> set xs. 0 \<le> x \<Longrightarrow> a + sum_list xs < 2 ^ 53 \<Longrightarrow>
   foldl fadd_int a xs = a + sum_list xs"
proof (induction xs arbitrary: a)
  case Nil
  show ?case by simp
next
  case (Cons x xs)
  have nn: "0 \<le> sum_list xs" using Cons.prems(2) by (simp add: sum_list_nonneg)
  have x: "0 \<le> x" using Cons.prems(2) by simp
  have "a + x < 2 ^ 53" using Cons.prems(3) nn by simp
  with Cons.prems(1) x have s: "fadd_int a x = a + x" by (simp add: fadd_int_exact)
  have "foldl fadd_int (a + x) xs = (a + x) + sum_list xs"
    using Cons.prems x by (intro Cons.IH) simp_all
  with s show ?case by simp
qed

lemma or_zero_default: "or_zero x = (case x of None \<Rightarrow> 0 | Some v \<Rightarrow> v)"
  by (simp add: or_zero_def split: option.splits)

lemma fold_totals:
  "fold (\<lambda>model acc.
           acc\<lparr>acc_tokens := fadd_int (acc_tokens acc) (or_zero (model_allTokens model)),
               acc_cost := fadd (acc_cost acc)
                 (or_zero (case costs model of None \<Rightarrow> None | Some c \<Rightarrow> costs_total c))\<rparr>)
        ms \<lparr>acc_tokens = a, acc_cost = b\<rparr>
     = \<lparr>acc_tokens = foldl fadd_int a (map entry_tokens ms),
        acc_cost = foldl fadd b (map entry_cost ms)\<rparr>"
proof (induction ms arbitrary: a b)
  case Nil
  show ?case by simp
next
  case (Cons m ms)
  have "or_zero (model_allTokens m) = entry_tokens m"
    by (simp add: or_zero_default entry_tokens_def)
  moreover have "or_zero (case costs m of None \<Rightarrow> None | Some c \<Rightarrow> costs_total c)
                   = entry_cost m"
    by (simp add: or_zero_default entry_cost_def split: option.splits)
  ultimately show ?case using Cons.IH by simp
qed

lemma monthlyTotals_folds:
  "monthlyTotals ms
     = \<lparr>acc_tokens = foldl fadd_int 0 (map entry_tokens ms),
        acc_cost = foldl fadd 0 (map entry_cost ms)\<rparr>"
  using fold_totals [of ms 0 0] by (simp add: monthlyTotals_def)

lemma monthlyTotals_example:
  "monthlyTotals example_models = \<lparr>acc_tokens = 12345, acc_cost = 13 / 4\<rparr>"
proof -
  have t: "foldl fadd_int 0 (map entry_tokens example_models) = 12345"
    by (subst foldl_fadd_int_exact) (simp_all add: example_models_def entry_tokens_def)
  have f: "fadd 0 3 = 3" "fadd 3 (1 / 4) = 13 / 4" "fadd (13 / 4) 0 = 13 / 4"
    by (simp_all add: fadd_def round_double_def floor_log2_def pow2_def round_half_even_def
        bits.simps Let_def)
  have c: "foldl fadd 0 (map entry_cost example_models) = 13 / 4"
    by (simp add: example_models_def entry_cost_def f)
  from t c show ?thesis by (simp add: monthlyTotals_folds)
qed

text \<open>The doubles next to one, two and three tenths, and their sums in both orders.\<close>

lemma tenths_doubles:
  "round_double (1 / 10) = 3602879701896397 / 36028797018963968"
  "round_double (1 / 5) = 3602879701896397 / 18014398509481984"
  "round_double (3 / 10) = 5404319552844595 / 18014398509481984"
  by (simp_all add: round_double_def floor_log2_def pow2_def round_half_even_def
      bits.simps Let_def)

lemma tenths_ascending:
  "fadd (fadd (fadd 0 (3602879701896397 / 36028797018963968))
           (3602879701896397 / 18014398509481984)) (5404319552844595 / 18014398509481984)
     = 1351079888211149 / 2251799813685248"
  by (simp add: fadd_def round_double_def floor_log2_def pow2_def round_half_even_def
      bits.simps Let_def)

lemma tenths_descending:
  "fadd (fadd (fadd 0 (5404319552844595 / 18014398509481984))
           (3602879701896397 / 18014398509481984)) (3602879701896397 / 36028797018963968)
     = 5404319552844595 / 9007199254740992"
  by (simp add: fadd_def round_double_def floor_log2_def pow2_def round_half_even_def
      bits.simps Let_def)

lemma monthlyTotals_tenths:
  "monthlyTotals tenths_models
     = \<lparr>acc_tokens = 6, acc_cost = 1351079888211149 / 2251799813685248\<rparr>"
  "monthlyTotals (rev tenths_models)
     = \<lparr>acc_tokens = 6, acc_cost = 5404319552844595 / 9007199254740992\<rparr>"
proof -
  have t: "foldl fadd_int 0 (map entry_tokens tenths_models) = 6"
    "foldl fadd_int 0 (map entry_tokens (rev tenths_models)) = 6"
    by (subst foldl_fadd_int_exact; simp add: tenths_models_def entry_tokens_def)+
  have c: "foldl fadd 0 (map entry_cost tenths_models) = 1351079888211149 / 2251799813685248"
    "foldl fadd 0 (map entry_cost (rev tenths_models)) = 5404319552844595 / 9007199254740992"
    by (simp_all add: tenths_models_def entry_cost_def tenths_doubles tenths_ascending
        tenths_descending)
  from t c show "monthlyTotals tenths_models
     = \<lparr>acc_tokens = 6, acc_cost = 1351079888211149 / 2251799813685248\<rparr>"
    and "monthlyTotals (rev tenths_models)
     = \<lparr>acc_tokens = 6, acc_cost = 5404319552844595 / 9007199254740992\<rparr>"
    by (simp_all add: monthlyTotals_folds)
qed

section \<open>The cache and the fallback\<close>

text \<open>
  C7. When \<open>baseUrl\<close> or \<open>apiKey\<close> is the empty string, \<open>getUsageInfo\<close> fails with the
  error \<open>Not configured\<close> whatever the cache holds, and returns the state as it was: the
  cached pair is untouched and no request is issued.
\<close>

theorem getUsageInfo_not_configured:
  "baseUrl = [] \<or> apiKey = [] \<Longrightarrow>
   getUsageInfo net now later baseUrl apiKey s = (Inl (Error ''Not configured''), s)"
  by (simp add: getUsageInfo_def)

text \<open>The check comes before the look-up: here the cached snapshot is 500 ms old.\<close>

theorem getUsageInfo_not_configured_witness:
  "('''' = [] \<or> ''cr_key'' = []) \<and>
   cachedResult filled_cache = Some example_snapshot \<and>
   1500 - lastFetchTime filled_cache < CACHE_TTL_MS \<and>
   getUsageInfo remote_up 1500 1600 '''' ''cr_key'' filled_cache
     = (Inl (Error ''Not configured''), filled_cache)"
  using getUsageInfo_not_configured [of "''''" "''cr_key''" remote_up 1500 1600 filled_cache]
  by (simp add: filled_cache_def CACHE_TTL_MS_def)

text \<open>
  C1. When the fetch fails and the cache holds a snapshot (the fetch is only attempted
  once that snapshot's TTL has run out), \<open>getUsageInfo\<close> does not raise: it returns the
  cached snapshot with the same daily, monthly and total figures, \<open>lastUpdate\<close> set to the
  current time and \<open>error\<close> set to the message of the error (\<open>API Error\<close> for a thrown
  value that is no \<open>Error\<close>). The cached snapshot and its fetch time stay as they were, so
  any later call after the TTL makes another round-trip.
\<close>

theorem getUsageInfo_fallback:
  assumes "baseUrl \<noteq> []" and "apiKey \<noteq> []"
    and "cachedResult s = Some c"
    and "\<not> now - lastFetchTime s < CACHE_TTL_MS"
    and "fetchUsageData net later baseUrl apiKey (requests s) = (Inl e, reqs')"
  shows "\<exists>r s'. getUsageInfo net now later baseUrl apiKey s = (Inr r, s')
           \<and> daily r = daily c \<and> monthly r = monthly c \<and> total_usage r = total_usage c
           \<and> lastUpdate r = later
           \<and> error r = Some (case e of Error m \<Rightarrow> m | NonError \<Rightarrow> ''API Error'')
           \<and> cachedResult s' = cachedResult s \<and> lastFetchTime s' = lastFetchTime s
           \<and> (\<forall>now2 later2. \<not> now2 - lastFetchTime s < CACHE_TTL_MS \<longrightarrow>
                 round_trips (requests (snd (getUsageInfo net now2 later2 baseUrl apiKey s')))
                   = round_trips (requests s') + 1)"
proof -
  let ?s' = "s\<lparr>requests := reqs'\<rparr>"
  let ?r = "c\<lparr>lastUpdate := later,
               error := Some (case e of Error m \<Rightarrow> m | NonError \<Rightarrow> ''API Error'')\<rparr>"
  have call: "getUsageInfo net now later baseUrl apiKey s = (Inr ?r, ?s')"
    using assms by (simp add: getUsageInfo_def)
  have retry: "round_trips (requests (snd (getUsageInfo net now2 later2 baseUrl apiKey ?s')))
                 = round_trips (requests ?s') + 1"
    if "\<not> now2 - lastFetchTime s < CACHE_TTL_MS" for now2 later2
  proof -
    obtain x reqs2 where f: "fetchUsageData net later2 baseUrl apiKey reqs' = (x, reqs2)"
      by (cases "fetchUsageData net later2 baseUrl apiKey reqs'")
    have "round_trips reqs2 = round_trips reqs' + 1"
      using fetchUsageData_round_trips [of net later2 baseUrl apiKey reqs'] f by simp
    moreover have "requests (snd (getUsageInfo net now2 later2 baseUrl apiKey ?s')) = reqs2"
      using assms(1-3) that f by (cases x) (simp_all add: getUsageInfo_def)
    ultimately show ?thesis by simp
  qed
  from call retry show ?thesis by simp
qed

theorem getUsageInfo_fallback_witness:
  "\<exists>r s'. getUsageInfo remote_down 20000 20001 ''https://crs.example'' ''cr_key'' filled_cache
             = (Inr r, s')
     \<and> daily r = daily example_snapshot \<and> monthly r = monthly example_snapshot
     \<and> total_usage r = total_usage example_snapshot
     \<and> lastUpdate r = 20001 \<and> error r = Some ''fetch failed''
     \<and> cachedResult s' = Some example_snapshot \<and> lastFetchTime s' = 1000"
proof -
  have h1: "''https://crs.example'' \<noteq> []" and h2: "''cr_key'' \<noteq> []" by simp_all
  have h3: "cachedResult filled_cache = Some example_snapshot" by (simp add: filled_cache_def)
  have h4: "\<not> 20000 - lastFetchTime filled_cache < CACHE_TTL_MS"
    by (simp add: filled_cache_def CACHE_TTL_MS_def)
  show ?thesis
    using getUsageInfo_fallback [OF h1 h2 h3 h4 remote_down_fetch [of 20001]]
    by (auto simp: filled_cache_def)
qed

lemma remote_up_fetch:
  "fetchUsageData remote_up 1200 ''https://crs.example'' ''cr_key'' []
     = (Inr fetched_snapshot, fetch_requests)"
  by (simp add: fetchUsageData_def getApiId_def getUserStats_def getUserModelStats_def
      remote_up_def example_stats_def monthlyTotals_example or_zero_def
      usage_allTokens_def fetched_snapshot_def fetch_requests_def)

lemma getUsageInfo_requests:
  assumes "baseUrl \<noteq> []" and "apiKey \<noteq> []"
    and "cachedResult s = None \<or> \<not> now - lastFetchTime s < CACHE_TTL_MS"
  shows "requests (snd (getUsageInfo net now later baseUrl apiKey s))
           = snd (fetchUsageData net later baseUrl apiKey (requests s))"
proof -
  obtain x reqs' where f: "fetchUsageData net later baseUrl apiKey (requests s) = (x, reqs')"
    by (cases "fetchUsageData net later baseUrl apiKey (requests s)")
  show ?thesis
    using assms f by (cases x; cases "cachedResult s") (auto simp: getUsageInfo_def)
qed

text \<open>
  C2. With non-empty arguments: a cached snapshot whose fetch time (the clock at the
  start of the call that fetched it) is less than the 10-second TTL before \<open>now\<close> is
  returned as it is, and the state (with its request list) is unchanged, so the network
  is not used. Otherwise one fetch is run: its requests are issued, and when it succeeds
  the cached pair becomes the new snapshot with \<open>now\<close> as its fetch time. A call
  within the TTL window of that pair then returns the same snapshot without a request,
  so the two calls make one round-trip; no call makes more than one, and a call at or
  after the TTL of the cached pair makes one.
\<close>

theorem getUsageInfo_cache:
  assumes "baseUrl \<noteq> []" and "apiKey \<noteq> []"
  shows "(\<forall>c. cachedResult s = Some c \<and> now - lastFetchTime s < CACHE_TTL_MS \<longrightarrow>
            getUsageInfo net now later baseUrl apiKey s = (Inr c, s))
       \<and> (cachedResult s = None \<or> \<not> now - lastFetchTime s < CACHE_TTL_MS \<longrightarrow>
            requests (snd (getUsageInfo net now later baseUrl apiKey s))
              = snd (fetchUsageData net later baseUrl apiKey (requests s))
            \<and> round_trips (requests (snd (getUsageInfo net now later baseUrl apiKey s)))
              = round_trips (requests s) + 1
            \<and> (\<forall>r reqs'. fetchUsageData net later baseUrl apiKey (requests s) = (Inr r, reqs') \<longrightarrow>
                 getUsageInfo net now later baseUrl apiKey s
                   = (Inr r, \<lparr>cachedResult = Some r, lastFetchTime = now, requests = reqs'\<rparr>)
                 \<and> (\<forall>now2 later2. now2 - now < CACHE_TTL_MS \<longrightarrow>
                       getUsageInfo net now2 later2 baseUrl apiKey
                         \<lparr>cachedResult = Some r, lastFetchTime = now, requests = reqs'\<rparr>
                       = (Inr r, \<lparr>cachedResult = Some r, lastFetchTime = now, requests = reqs'\<rparr>))))
       \<and> round_trips (requests (snd (getUsageInfo net now later baseUrl apiKey s)))
            \<le> round_trips (requests s) + 1"
proof (intro conjI allI impI)
  fix c assume "cachedResult s = Some c \<and> now - lastFetchTime s < CACHE_TTL_MS"
  with assms show "getUsageInfo net now later baseUrl apiKey s = (Inr c, s)"
    by (simp add: getUsageInfo_def)
next
  assume miss: "cachedResult s = None \<or> \<not> now - lastFetchTime s < CACHE_TTL_MS"
  show r: "requests (snd (getUsageInfo net now later baseUrl apiKey s))
          = snd (fetchUsageData net later baseUrl apiKey (requests s))"
    using getUsageInfo_requests [OF assms miss] .
  show "round_trips (requests (snd (getUsageInfo net now later baseUrl apiKey s)))
          = round_trips (requests s) + 1"
    using r fetchUsageData_round_trips [of net later baseUrl apiKey "requests s"] by simp
next
  fix r reqs'
  assume miss: "cachedResult s = None \<or> \<not> now - lastFetchTime s < CACHE_TTL_MS"
    and f: "fetchUsageData net later baseUrl apiKey (requests s) = (Inr r, reqs')"
  show "getUsageInfo net now later baseUrl apiKey s
          = (Inr r, \<lparr>cachedResult = Some r, lastFetchTime = now, requests = reqs'\<rparr>)"
    using assms miss f by (cases "cachedResult s") (auto simp: getUsageInfo_def)
next
  fix r reqs' now2 later2
  assume "now2 - now < CACHE_TTL_MS"
  with assms show "getUsageInfo net now2 later2 baseUrl apiKey
                     \<lparr>cachedResult = Some r, lastFetchTime = now, requests = reqs'\<rparr>
                   = (Inr r, \<lparr>cachedResult = Some r, lastFetchTime = now, requests = reqs'\<rparr>)"
    by (simp add: getUsageInfo_def)
next
  show "round_trips (requests (snd (getUsageInfo net now later baseUrl apiKey s)))
          \<le> round_trips (requests s) + 1"
  proof (cases "cachedResult s = None \<or> \<not> now - lastFetchTime s < CACHE_TTL_MS")
    case True
    then show ?thesis
      using getUsageInfo_requests [OF assms True]
        fetchUsageData_round_trips [of net later baseUrl apiKey "requests s"] by simp
  next
    case False
    then obtain c where "cachedResult s = Some c" "now - lastFetchTime s < CACHE_TTL_MS" by auto
    with assms have "getUsageInfo net now later baseUrl apiKey s = (Inr c, s)"
      by (simp add: getUsageInfo_def)
    then show ?thesis by simp
  qed
qed

theorem getUsageInfo_cache_witness:
  "getUsageInfo remote_up 1000 1200 ''https://crs.example'' ''cr_key'' initial_cache
     = (Inr fetched_snapshot,
        \<lparr>cachedResult = Some fetched_snapshot, lastFetchTime = 1000, requests = fetch_requests\<rparr>)
   \<and> getUsageInfo remote_up 10999 11200 ''https://crs.example'' ''cr_key''
        \<lparr>cachedResult = Some fetched_snapshot, lastFetchTime = 1000, requests = fetch_requests\<rparr>
     = (Inr fetched_snapshot,
        \<lparr>cachedResult = Some fetched_snapshot, lastFetchTime = 1000, requests = fetch_requests\<rparr>)
   \<and> round_trips fetch_requests = 1
   \<and> round_trips (requests (snd (getUsageInfo remote_up 11000 11200 ''https://crs.example''
        ''cr_key''
        \<lparr>cachedResult = Some fetched_snapshot, lastFetchTime = 1000, requests = fetch_requests\<rparr>)))
     = 2"
proof -
  have h1: "''https://crs.example'' \<noteq> []" and h2: "''cr_key'' \<noteq> []" by simp_all
  have rt: "round_trips fetch_requests = 1"
    by (simp add: round_trips_def fetch_requests_def)
  have first: "getUsageInfo remote_up 1000 1200 ''https://crs.example'' ''cr_key'' initial_cache
     = (Inr fetched_snapshot,
        \<lparr>cachedResult = Some fetched_snapshot, lastFetchTime = 1000, requests = fetch_requests\<rparr>)"
   and second: "getUsageInfo remote_up 10999 11200 ''https://crs.example'' ''cr_key''
        \<lparr>cachedResult = Some fetched_snapshot, lastFetchTime = 1000, requests = fetch_requests\<rparr>
     = (Inr fetched_snapshot,
        \<lparr>cachedResult = Some fetched_snapshot, lastFetchTime = 1000, requests = fetch_requests\<rparr>)"
    using getUsageInfo_cache [OF h1 h2, of initial_cache 1000 remote_up 1200] remote_up_fetch
    by (simp_all add: initial_cache_def CACHE_TTL_MS_def)
  have third: "round_trips (requests (snd (getUsageInfo remote_up 11000 11200 ''https://crs.example''
        ''cr_key''
        \<lparr>cachedResult = Some fetched_snapshot, lastFetchTime = 1000, requests = fetch_requests\<rparr>)))
     = 2"
  proof -
    let ?S = "\<lparr>cachedResult = Some fetched_snapshot, lastFetchTime = 1000, requests = fetch_requests\<rparr>"
    have miss: "cachedResult ?S = None \<or> \<not> 11000 - lastFetchTime ?S < CACHE_TTL_MS"
      by (simp add: CACHE_TTL_MS_def)
    from getUsageInfo_cache [OF h1 h2, of ?S 11000 remote_up 11200] miss
    have "round_trips (requests (snd (getUsageInfo remote_up 11000 11200 ''https://crs.example''
            ''cr_key'' ?S))) = round_trips (requests ?S) + 1"
      by blast
    with rt show ?thesis by simp
  qed
  from first second rt third show ?thesis by simp
qed

text \<open>
  C6. \<open>clearCache\<close> empties the cache whatever its age, so the next call of
  \<open>getUsageInfo\<close> (with non-empty arguments) runs a fetch at any \<open>now\<close>; and with an
  empty cache a failing fetch has nothing to fall back on: its error is what the caller
  gets.
\<close>

theorem clearCache_forces_fetch:
  "cachedResult (clearCache s) = None \<and> lastFetchTime (clearCache s) = 0
   \<and> requests (clearCache s) = requests s
   \<and> (baseUrl \<noteq> [] \<and> apiKey \<noteq> [] \<longrightarrow>
        requests (snd (getUsageInfo net now later baseUrl apiKey (clearCache s)))
          = snd (fetchUsageData net later baseUrl apiKey (requests s))
        \<and> round_trips (requests (snd (getUsageInfo net now later baseUrl apiKey (clearCache s))))
          = round_trips (requests s) + 1)
   \<and> (baseUrl \<noteq> [] \<and> apiKey \<noteq> [] \<and> cachedResult s = None \<longrightarrow>
        (\<forall>e reqs'. fetchUsageData net later baseUrl apiKey (requests s) = (Inl e, reqs') \<longrightarrow>
           getUsageInfo net now later baseUrl apiKey s = (Inl e, s\<lparr>requests := reqs'\<rparr>)))"
proof -
  have c: "cachedResult (clearCache s) = None" "lastFetchTime (clearCache s) = 0"
    "requests (clearCache s) = requests s"
    by (simp_all add: clearCache_def)
  have n: "requests (snd (getUsageInfo net now later baseUrl apiKey (clearCache s)))
          = snd (fetchUsageData net later baseUrl apiKey (requests s))"
    if "baseUrl \<noteq> []" "apiKey \<noteq> []"
    using getUsageInfo_requests [OF that, of "clearCache s" now net later] c by simp
  have p: "getUsageInfo net now later baseUrl apiKey s = (Inl e, s\<lparr>requests := reqs'\<rparr>)"
    if "baseUrl \<noteq> []" "apiKey \<noteq> []" "cachedResult s = None"
      "fetchUsageData net later baseUrl apiKey (requests s) = (Inl e, reqs')" for e reqs'
    using that by (simp add: getUsageInfo_def)
  from c n p fetchUsageData_round_trips [of net later baseUrl apiKey "requests s"]
  show ?thesis by simp
qed

theorem clearCache_forces_fetch_witness:
  "1500 - lastFetchTime filled_cache < CACHE_TTL_MS
   \<and> cachedResult (clearCache filled_cache) = None
   \<and> getUsageInfo remote_down 1500 1600 ''https://crs.example'' ''cr_key'' (clearCache filled_cache)
       = (Inl (Error ''fetch failed''),
          \<lparr>cachedResult = None, lastFetchTime = 0,
           requests = [(''https://crs.example/apiStats/api/get-key-id'', ApiKeyBody ''cr_key'')]\<rparr>)"
  using clearCache_forces_fetch [of filled_cache "''https://crs.example''" "''cr_key''"
      remote_down 1500 1600]
    clearCache_forces_fetch [of "clearCache filled_cache" "''https://crs.example''" "''cr_key''"
      remote_down 1500 1600]
    remote_down_fetch [of 1600 "[]"]
  by (simp add: filled_cache_def clearCache_def CACHE_TTL_MS_def)

section \<open>The status bar text and the progress bar\<close>

lemma digit_is_digit: "digit n \<in> set ''0123456789''"
proof -
  have "n mod 10 < length ''0123456789''" by simp
  then show ?thesis unfolding digit_def by (rule nth_mem)
qed

lemma showNat_digits: "set (showNat n) \<subseteq> set ''0123456789''"
proof (induction n rule: showNat.induct)
  case (1 n)
  show ?case
  proof (cases "n < 10")
    case True
    then have "showNat n = [digit n]" by (simp add: showNat.simps)
    with digit_is_digit [of n] show ?thesis by simp
  next
    case False
    then have "showNat n = showNat (n div 10) @ [digit (n mod 10)]"
      by (subst showNat.simps) simp
    with 1 False digit_is_digit [of "n mod 10"] show ?thesis by simp
  qed
qed

lemma toFixed_one_decimal:
  "\<exists>w d. toFixed x 1 = w @ [CHR ''.'', d] \<and> CHR ''.'' \<notin> set w \<and> d \<in> set ''0123456789''"
proof -
  define n where "n = nat \<lfloor>\<bar>x\<bar> * 10 ^ 1 + 1 / 2\<rfloor>"
  define w where "w = (if x < 0 then ''-'' else '''') @ showNat (n div 10)"
  have frac: "showNat (n mod 10) = [digit (n mod 10)]"
    by (simp add: showNat.simps)
  have "toFixed x 1 = w @ [CHR ''.'', digit (n mod 10)]"
    using frac by (simp add: toFixed_def Let_def n_def w_def)
  moreover have "CHR ''.'' \<notin> set w"
    using showNat_digits [of "n div 10"] by (auto simp: w_def)
  ultimately show ?thesis using digit_is_digit [of "n mod 10"] by blast
qed




text \<open>
  C5 (as the code has it). When a most-constrained limit exists and amounts are shown, the
  status bar text is the icon, the percentage of that limit with one decimal place, and
  in brackets its used and total amounts, each with a \<open>$\<close> before it and with one
  decimal place (\<open>toFixed(1)\<close>, not the two places of \<open>formatCurrency\<close>). For daily cost
  7.5 of 10 that is \<open>$(credit-card) 75.0% ($7.5/$10.0)\<close>.
\<close>

theorem formatStatusBarText_amounts:
  "getMostConstrainedLimit u = Some c \<Longrightarrow>
   formatStatusBarText u True
     = ''$(credit-card) '' @ toFixed (percentage c) 1 @ ''% ($''
         @ toFixed (used c) 1 @ ''/$'' @ toFixed (total c) 1 @ '')''
   \<and> formatStatusBarText u False = ''$(credit-card) '' @ toFixed (percentage c) 1 @ ''%''
   \<and> (\<forall>x \<in> {percentage c, used c, total c}.
         \<exists>w d. toFixed x 1 = w @ [CHR ''.'', d] \<and> CHR ''.'' \<notin> set w
               \<and> d \<in> set ''0123456789'')"
  using toFixed_one_decimal by (simp add: formatStatusBarText_def)

theorem formatStatusBarText_amounts_witness:
  "getMostConstrainedLimit fetched_snapshot
     = Some \<lparr>used = 15 / 2, total = 10, name = ''Daily'', percentage = 75\<rparr>
   \<and> formatStatusBarText fetched_snapshot True
       = ''$(credit-card) '' @ ''75.0'' @ ''% ($'' @ ''7.5'' @ ''/$'' @ ''10.0'' @ '')''"
proof -
  have c: "getMostConstrainedLimit fetched_snapshot
     = Some \<lparr>used = 15 / 2, total = 10, name = ''Daily'', percentage = 75\<rparr>"
    by (simp add: getMostConstrainedLimit_def pushed_limits_def fetched_snapshot_def)
  have "toFixed 75 1 = ''75.0''" "toFixed (15 / 2) 1 = ''7.5''" "toFixed 10 1 = ''10.0''"
    by (simp_all add: toFixed_def showNat.simps digit_def)
  with formatStatusBarText_amounts [OF c] c show ?thesis by simp
qed

theorem formatStatusBarText_two_decimals_counterexample:
  "formatStatusBarText fetched_snapshot True = ''$(credit-card) 75.0% ($7.5/$10.0)''
   \<and> formatStatusBarText fetched_snapshot True \<noteq> ''$(credit-card) 75.0% ($7.50/$10.00)''
   \<and> formatStatusBarText fetched_snapshot True \<noteq> ''75.0% ($7.50/$10.00)''"
  by (simp add: formatStatusBarText_def getMostConstrainedLimit_def pushed_limits_def
      fetched_snapshot_def toFixed_def showNat.simps digit_def)

lemma repeat_str_glyph:
  "0 \<le> n \<Longrightarrow> repeat_str [g] n = Inr (replicate (nat n) g)"
  by (simp add: repeat_str_def)

lemma Math_round_filled:
  assumes "0 < t" and "- t \<le> 50 * u"
  shows "0 \<le> Math_round (min (u / t) 1 * 25)" and "Math_round (min (u / t) 1 * 25) \<le> 25"
proof -
  have "- 1 \<le> 50 * (u / t)"
    using assms by (simp add: pos_le_divide_eq mult.commute)
  then have "0 \<le> min (u / t) 1 * 25 + 1 / 2" by (simp add: min_def)
  then show "0 \<le> Math_round (min (u / t) 1 * 25)"
    by (simp add: Math_round_def)
  have "min (u / t) 1 * 25 + 1 / 2 < 26" by (simp add: min_def)
  then have "\<lfloor>min (u / t) 1 * 25 + 1 / 2\<rfloor> < 26" by (simp add: floor_less_iff)
  then show "Math_round (min (u / t) 1 * 25) \<le> 25"
    by (simp add: Math_round_def)
qed

text \<open>
  C10 (as the code has it). When \<open>total\<close> is 0 (or negative) no progress bar is produced
  whatever \<open>used\<close> is, and the period's row reads \<open>Unlimited\<close>. When \<open>total > 0\<close> and
  \<open>used \<ge> - total / 50\<close>, so for every \<open>used \<ge> 0\<close>, the bar has 25 cells: a number of
  filled glyphs (the rounded 25-fold of \<open>min(used / total, 1)\<close>) followed by empty ones;
  usage at or over the limit gives the full bar and \<open>100.0%\<close>; the text is the
  proportion times 100 with one decimal place and \<open>%\<close>. When \<open>total > 0\<close> and
  \<open>used < - total / 50\<close> the filled count is negative and \<open>repeat\<close> raises a
  \<open>RangeError\<close>: there is no bar.
\<close>

theorem generateProgressBar_cells:
  "(t \<le> 0 \<longrightarrow> generateProgressBar u t 25 = Inr None
       \<and> right_cell (section_of title p None) = ''Unlimited''
       \<and> bar_row (section_of title p None) = None)
   \<and> (0 < t \<and> - t \<le> 50 * u \<longrightarrow>
        (\<exists>b k. generateProgressBar u t 25 = Inr (Some b)
           \<and> int k = Math_round (min (u / t) 1 * 25) \<and> k \<le> 25
           \<and> bar b = replicate k DarkShade @ replicate (25 - k) LightShade
           \<and> length (bar b) = 25
           \<and> bar_text b = toFixed (min (u / t) 1 * 100) 1 @ ''%''
           \<and> (\<exists>w d. bar_text b = w @ [CHR ''.'', d, CHR ''%''] \<and> CHR ''.'' \<notin> set w
                  \<and> d \<in> set ''0123456789'')))
   \<and> (0 < t \<and> t \<le> u \<longrightarrow>
        generateProgressBar u t 25
          = Inr (Some \<lparr>bar = replicate 25 DarkShade, bar_text = ''100.0%''\<rparr>))
   \<and> (0 < t \<and> 50 * u < - t \<longrightarrow>
        generateProgressBar u t 25
          = Inl (Error (''Invalid count value: '' @ showInt (Math_round (u / t * 25))))
        \<and> Math_round (u / t * 25) < 0)"
proof (intro conjI impI)
  assume "t \<le> 0"
  then show "generateProgressBar u t 25 = Inr None"
    by (simp add: generateProgressBar_def)
next
  show "right_cell (section_of title p None) = ''Unlimited''"
    and "bar_row (section_of title p None) = None"
    by (simp_all add: section_of_def)
next
  assume a: "0 < t \<and> - t \<le> 50 * u"
  let ?f = "Math_round (min (u / t) 1 * 25)"
  have f: "0 \<le> ?f" "?f \<le> 25"
    using a Math_round_filled [of t u] by simp_all
  let ?k = "nat ?f"
  let ?b = "\<lparr>bar = replicate ?k DarkShade @ replicate (25 - ?k) LightShade,
             bar_text = toFixed (min (u / t) 1 * 100) 1 @ ''%''\<rparr>"
  have e: "nat (25 - ?f) = 25 - ?k" using f by simp
  have "generateProgressBar u t 25 = Inr (Some ?b)"
    using a f e repeat_str_glyph [of ?f DarkShade] repeat_str_glyph [of "25 - ?f" LightShade]
    by (simp add: generateProgressBar_def Let_def)
  moreover have "int ?k = ?f" "?k \<le> 25" using f by simp_all
  moreover have "length (bar ?b) = 25" using f by simp
  moreover obtain w d where "toFixed (min (u / t) 1 * 100) 1 = w @ [CHR ''.'', d]"
    "CHR ''.'' \<notin> set w" "d \<in> set ''0123456789''"
    using toFixed_one_decimal [of "min (u / t) 1 * 100"] by blast
  then have "\<exists>w d. bar_text ?b = w @ [CHR ''.'', d, CHR ''%''] \<and> CHR ''.'' \<notin> set w
                  \<and> d \<in> set ''0123456789''"
    by auto
  ultimately show "\<exists>b k. generateProgressBar u t 25 = Inr (Some b)
           \<and> int k = Math_round (min (u / t) 1 * 25) \<and> k \<le> 25
           \<and> bar b = replicate k DarkShade @ replicate (25 - k) LightShade
           \<and> length (bar b) = 25
           \<and> bar_text b = toFixed (min (u / t) 1 * 100) 1 @ ''%''
           \<and> (\<exists>w d. bar_text b = w @ [CHR ''.'', d, CHR ''%''] \<and> CHR ''.'' \<notin> set w
                  \<and> d \<in> set ''0123456789'')"
    by (intro exI [of _ ?b] exI [of _ ?k]) simp
next
  assume a: "0 < t \<and> t \<le> u"
  then have m: "min (u / t) 1 = 1" by (simp add: min_def)
  have r: "Math_round 25 = 25" by (simp add: Math_round_def)
  have "toFixed 100 1 = ''100.0''"
    by (simp add: toFixed_def showNat.simps digit_def)
  then show "generateProgressBar u t 25
          = Inr (Some \<lparr>bar = replicate 25 DarkShade, bar_text = ''100.0%''\<rparr>)"
    using a m r repeat_str_glyph [of 25 DarkShade] repeat_str_glyph [of 0 LightShade]
    by (simp add: generateProgressBar_def Let_def)
next
  assume a: "0 < t \<and> 50 * u < - t"
  then have "50 * (u / t) < - 1"
    by (simp add: pos_divide_less_eq mult.commute)
  then have lt: "u / t * 25 + 1 / 2 < 0" and m: "min (u / t) 1 = u / t"
    by (simp_all add: min_def)
  from lt have "\<lfloor>u / t * 25 + 1 / 2\<rfloor> < 0" by (simp add: floor_less_iff)
  then show neg: "Math_round (u / t * 25) < 0" by (simp add: Math_round_def)
  with a m show "generateProgressBar u t 25
          = Inl (Error (''Invalid count value: '' @ showInt (Math_round (u / t * 25))))"
    by (simp add: generateProgressBar_def Let_def repeat_str_def)
qed

theorem generateProgressBar_cells_witness:
  "generateProgressBar 30 0 25 = Inr None
   \<and> generateProgressBar 80 100 25
       = Inr (Some \<lparr>bar = replicate 20 DarkShade @ replicate 5 LightShade,
                    bar_text = ''80.0%''\<rparr>)
   \<and> generateProgressBar 180 100 25
       = Inr (Some \<lparr>bar = replicate 25 DarkShade, bar_text = ''100.0%''\<rparr>)
   \<and> generateProgressBar (- 10) 100 25 = Inl (Error ''Invalid count value: -2'')"
proof -
  have r: "Math_round (min (80 / 100) 1 * 25) = 20" "Math_round (- 10 / 100 * 25) = - 2"
    by (simp_all add: Math_round_def)
  have x: "toFixed (min (80 / 100) 1 * 100) 1 = ''80.0''"
    by (simp add: toFixed_def showNat.simps digit_def)
  have s: "showInt (- 2) = ''-2''"
    by (simp add: showInt_def showNat.simps digit_def)
  from generateProgressBar_cells [of 0 30] have 1: "generateProgressBar 30 0 25 = Inr None"
    by simp
  from generateProgressBar_cells [of 100 80] r x
  have 2: "generateProgressBar 80 100 25
       = Inr (Some \<lparr>bar = replicate 20 DarkShade @ replicate 5 LightShade,
                    bar_text = ''80.0%''\<rparr>)"
    by auto
  from generateProgressBar_cells [of 100 180]
  have 3: "generateProgressBar 180 100 25
       = Inr (Some \<lparr>bar = replicate 25 DarkShade, bar_text = ''100.0%''\<rparr>)"
    by simp
  from generateProgressBar_cells [of 100 "- 10"] r s
  have 4: "generateProgressBar (- 10) 100 25 = Inl (Error ''Invalid count value: -2'')"
    by simp
  from 1 2 3 4 show ?thesis by simp
qed

theorem generateProgressBar_negative_counterexample:
  "generateProgressBar (- 10) 100 25 = Inl (Error ''Invalid count value: -2'')"
  by (simp add: generateProgressBar_def Math_round_def repeat_str_def showInt_def
      showNat.simps digit_def)

section \<open>The snapshot of a successful fetch\<close>

lemma sum_list_permuted:
  fixes f :: "'a \<Rightarrow> 'b::comm_monoid_add"
  assumes "mset xs = mset ys"
  shows "sum_list (map f xs) = sum_list (map f ys)"
proof -
  have "sum_list (map f xs) = sum_mset (image_mset f (mset xs))"
    by (simp add: sum_mset_sum_list [symmetric])
  also have "\<dots> = sum_mset (image_mset f (mset ys))" using assms by simp
  also have "\<dots> = sum_list (map f ys)" by (simp add: sum_mset_sum_list [symmetric])
  finally show ?thesis .
qed

lemma fetchUsageData_Inr:
  assumes "fetchUsageData net done baseUrl apiKey reqs = (Inr u, reqs')"
  shows "\<exists>apiId stats models reqs1 reqs2.
           getApiId net baseUrl apiKey reqs = (Inr apiId, reqs1)
         \<and> getUserStats net baseUrl apiId reqs1 = (Inr stats, reqs2)
         \<and> getUserModelStats net baseUrl apiId Monthly reqs2 = (Inr models, reqs')
         \<and> u = \<lparr>daily =
                   \<lparr>cost = \<lparr>used = or_zero (currentDailyCost (limits stats)),
                             total = or_zero (dailyCostLimit (limits stats))\<rparr>,
                    tokens = or_zero (usage_allTokens stats)\<rparr>,
                 monthly =
                   \<lparr>cost = \<lparr>used = acc_cost (monthlyTotals models), total = 0\<rparr>,
                    tokens = acc_tokens (monthlyTotals models)\<rparr>,
                 total_usage =
                   \<lparr>cost = \<lparr>used = or_zero (currentTotalCost (limits stats)),
                             total = or_zero (totalCostLimit (limits stats))\<rparr>,
                    tokens = or_zero (usage_allTokens stats)\<rparr>,
                 lastUpdate = done, error = None\<rparr>"
proof -
  obtain r0 reqs1 where g: "getApiId net baseUrl apiKey reqs = (r0, reqs1)"
    by (cases "getApiId net baseUrl apiKey reqs")
  from assms g obtain apiId where r0: "r0 = Inr apiId"
    by (cases r0) (simp_all add: fetchUsageData_def)
  obtain r1 reqs2 where s: "getUserStats net baseUrl apiId reqs1 = (r1, reqs2)"
    by (cases "getUserStats net baseUrl apiId reqs1")
  obtain r2 reqs3 where m: "getUserModelStats net baseUrl apiId Monthly reqs2 = (r2, reqs3)"
    by (cases "getUserModelStats net baseUrl apiId Monthly reqs2")
  from assms g r0 s m obtain stats where r1: "r1 = Inr stats"
    by (cases r1; cases r2) (simp_all add: fetchUsageData_def)
  from assms g r0 s m r1 obtain models where r2: "r2 = Inr models"
    by (cases r2) (simp_all add: fetchUsageData_def)
  from assms g r0 s m r1 r2 show ?thesis
    by (simp add: fetchUsageData_def)
qed

text \<open>
  C8 (as the code has it). A snapshot comes out of \<open>fetchUsageData\<close> only when all three
  calls succeed, and then: daily cost is \<open>currentDailyCost\<close> of \<open>dailyCostLimit\<close>;
  monthly cost is the entries' costs added as doubles, left to right in the order of the
  response, starting from 0, with total 0; monthly tokens is the entries' \<open>allTokens\<close>
  added the same way; both are 0 for no entries; total cost is \<open>currentTotalCost\<close> of
  \<open>totalCostLimit\<close>; daily and total tokens are both the account's \<open>allTokens\<close>. Absent
  fields count as 0. Where no addition rounds the sum does not depend on the order: token
  counts that are not negative and add up to less than \<open>2^53\<close> give their exact sum in
  every order. The sum of the costs can change with the order of the entries.
\<close>

theorem fetchUsageData_snapshot:
  assumes "fetchUsageData net done baseUrl apiKey reqs = (Inr u, reqs')"
  shows "\<exists>apiId stats models reqs1 reqs2.
           getApiId net baseUrl apiKey reqs = (Inr apiId, reqs1)
         \<and> getUserStats net baseUrl apiId reqs1 = (Inr stats, reqs2)
         \<and> getUserModelStats net baseUrl apiId Monthly reqs2 = (Inr models, reqs')
         \<and> cost (daily u)
             = \<lparr>used = (case currentDailyCost (limits stats) of None \<Rightarrow> 0 | Some v \<Rightarrow> v),
                total = (case dailyCostLimit (limits stats) of None \<Rightarrow> 0 | Some v \<Rightarrow> v)\<rparr>
         \<and> cost (monthly u) = \<lparr>used = foldl fadd 0 (map entry_cost models), total = 0\<rparr>
         \<and> tokens (monthly u) = foldl fadd_int 0 (map entry_tokens models)
         \<and> ((\<forall>m \<in> set models. 0 \<le> entry_tokens m)
              \<and> sum_list (map entry_tokens models) < 2 ^ 53 \<longrightarrow>
               tokens (monthly u) = sum_list (map entry_tokens models)
               \<and> (\<forall>models'. mset models' = mset models \<longrightarrow>
                     acc_tokens (monthlyTotals models') = tokens (monthly u)))
         \<and> (models = [] \<longrightarrow> used (cost (monthly u)) = 0 \<and> tokens (monthly u) = 0)
         \<and> cost (total_usage u)
             = \<lparr>used = (case currentTotalCost (limits stats) of None \<Rightarrow> 0 | Some v \<Rightarrow> v),
                total = (case totalCostLimit (limits stats) of None \<Rightarrow> 0 | Some v \<Rightarrow> v)\<rparr>
         \<and> tokens (daily u) = (case usage_allTokens stats of None \<Rightarrow> 0 | Some v \<Rightarrow> v)
         \<and> tokens (total_usage u) = tokens (daily u)
         \<and> lastUpdate u = done \<and> error u = None"
proof -
  from fetchUsageData_Inr [OF assms] obtain apiId stats models reqs1 reqs2 where
    c: "getApiId net baseUrl apiKey reqs = (Inr apiId, reqs1)"
       "getUserStats net baseUrl apiId reqs1 = (Inr stats, reqs2)"
       "getUserModelStats net baseUrl apiId Monthly reqs2 = (Inr models, reqs')"
    and u: "u = \<lparr>daily =
                   \<lparr>cost = \<lparr>used = or_zero (currentDailyCost (limits stats)),
                             total = or_zero (dailyCostLimit (limits stats))\<rparr>,
                    tokens = or_zero (usage_allTokens stats)\<rparr>,
                 monthly =
                   \<lparr>cost = \<lparr>used = acc_cost (monthlyTotals models), total = 0\<rparr>,
                    tokens = acc_tokens (monthlyTotals models)\<rparr>,
                 total_usage =
                   \<lparr>cost = \<lparr>used = or_zero (currentTotalCost (limits stats)),
                             total = or_zero (totalCostLimit (limits stats))\<rparr>,
                    tokens = or_zero (usage_allTokens stats)\<rparr>,
                 lastUpdate = done, error = None\<rparr>"
    by blast
  have fields: "cost (daily u)
             = \<lparr>used = (case currentDailyCost (limits stats) of None \<Rightarrow> 0 | Some v \<Rightarrow> v),
                total = (case dailyCostLimit (limits stats) of None \<Rightarrow> 0 | Some v \<Rightarrow> v)\<rparr>"
    "cost (monthly u) = \<lparr>used = foldl fadd 0 (map entry_cost models), total = 0\<rparr>"
    "tokens (monthly u) = foldl fadd_int 0 (map entry_tokens models)"
    "cost (total_usage u)
             = \<lparr>used = (case currentTotalCost (limits stats) of None \<Rightarrow> 0 | Some v \<Rightarrow> v),
                total = (case totalCostLimit (limits stats) of None \<Rightarrow> 0 | Some v \<Rightarrow> v)\<rparr>"
    "tokens (daily u) = (case usage_allTokens stats of None \<Rightarrow> 0 | Some v \<Rightarrow> v)"
    "tokens (total_usage u) = tokens (daily u)"
    "lastUpdate u = done" "error u = None"
    by (simp_all add: u or_zero_default monthlyTotals_folds)
  have exact: "tokens (monthly u) = sum_list (map entry_tokens models)
               \<and> (\<forall>models'. mset models' = mset models \<longrightarrow>
                     acc_tokens (monthlyTotals models') = tokens (monthly u))"
    if h: "(\<forall>m \<in> set models. 0 \<le> entry_tokens m)
              \<and> sum_list (map entry_tokens models) < 2 ^ 53"
  proof (intro conjI allI impI)
    show t: "tokens (monthly u) = sum_list (map entry_tokens models)"
      using h foldl_fadd_int_exact [of 0 "map entry_tokens models"] fields(3) by simp
    fix models'
    assume p: "mset models' = mset models"
    then have "set models' = set models" by (rule mset_eq_setD)
    moreover have "sum_list (map entry_tokens models') = sum_list (map entry_tokens models)"
      using p by (rule sum_list_permuted)
    ultimately have "foldl fadd_int 0 (map entry_tokens models')
                       = sum_list (map entry_tokens models)"
      using h foldl_fadd_int_exact [of 0 "map entry_tokens models'"] by simp
    with t show "acc_tokens (monthlyTotals models') = tokens (monthly u)"
      by (simp add: monthlyTotals_folds)
  qed
  have empty: "models = [] \<longrightarrow> used (cost (monthly u)) = 0 \<and> tokens (monthly u) = 0"
    using fields(2,3) by simp
  from c fields exact empty show ?thesis by blast
qed

theorem fetchUsageData_snapshot_witness:
  "fetchUsageData remote_up 1200 ''https://crs.example'' ''cr_key'' []
     = (Inr fetched_snapshot, fetch_requests)
   \<and> cost (daily fetched_snapshot) = \<lparr>used = 15 / 2, total = 10\<rparr>
   \<and> cost (monthly fetched_snapshot) = \<lparr>used = 13 / 4, total = 0\<rparr>
   \<and> tokens (monthly fetched_snapshot) = 12345
   \<and> cost (total_usage fetched_snapshot) = \<lparr>used = 42, total = 0\<rparr>
   \<and> tokens (total_usage fetched_snapshot) = tokens (daily fetched_snapshot)
   \<and> sum_list (map entry_tokens example_models) = 12345
   \<and> acc_tokens (monthlyTotals (rev example_models)) = 12345"
proof -
  have "tokens (total_usage fetched_snapshot) = tokens (daily fetched_snapshot)"
    using fetchUsageData_snapshot [OF remote_up_fetch] by (elim exE conjE)
  moreover have "sum_list (map entry_tokens example_models) = 12345"
    by (simp add: example_models_def entry_tokens_def)
  moreover have "acc_tokens (monthlyTotals (rev example_models)) = 12345"
    by (simp add: monthlyTotals_folds, subst foldl_fadd_int_exact)
      (simp_all add: example_models_def entry_tokens_def)
  ultimately show ?thesis
    using remote_up_fetch by (simp add: fetched_snapshot_def)
qed

text \<open>
  The same three entries in the two orders: costs 0.1, 0.2, 0.3 add up to
  0.6000000000000001, and 0.3, 0.2, 0.1 to 0.6.
\<close>

theorem fetchUsageData_order_counterexample:
  "mset (rev tenths_models) = mset tenths_models
   \<and> fst (fetchUsageData (remote_with tenths_models) 1200 ''https://crs.example'' ''cr_key'' [])
       = Inr (fetched_snapshot\<lparr>monthly :=
               \<lparr>cost = \<lparr>used = 1351079888211149 / 2251799813685248, total = 0\<rparr>,
                tokens = 6\<rparr>\<rparr>)
   \<and> fst (fetchUsageData (remote_with (rev tenths_models)) 1200 ''https://crs.example''
            ''cr_key'' [])
       = Inr (fetched_snapshot\<lparr>monthly :=
               \<lparr>cost = \<lparr>used = 5404319552844595 / 9007199254740992, total = 0\<rparr>,
                tokens = 6\<rparr>\<rparr>)
   \<and> (1351079888211149 / 2251799813685248 :: real) \<noteq> 5404319552844595 / 9007199254740992"
  by (simp add: fetchUsageData_def getApiId_def getUserStats_def getUserModelStats_def
      remote_with_def remote_up_def example_stats_def monthlyTotals_tenths or_zero_def
      usage_allTokens_def fetched_snapshot_def)

text \<open>
  C9 (as the code has it). The client copies and adds the numbers of the responses and
  clamps none of them: when no number of the account statistics and of the model
  breakdown is negative, \<open>used\<close>, \<open>total\<close> and \<open>tokens\<close> of all three periods of the
  snapshot are non-negative. A negative number in a response goes into the snapshot.
\<close>

theorem fetchUsageData_nonneg:
  assumes "fetchUsageData net done baseUrl apiKey reqs = (Inr u, reqs')"
    and "\<And>apiId ok status d stats. user_stats net baseUrl apiId = Response ok status (Inr d)
           \<Longrightarrow> data d = Some stats \<Longrightarrow> nonneg_stats stats"
    and "\<And>apiId ok status d models.
           user_model_stats net baseUrl apiId Monthly = Response ok status (Inr d)
           \<Longrightarrow> data d = Some models \<Longrightarrow> list_all nonneg_model models"
  shows "0 \<le> used (cost (daily u)) \<and> 0 \<le> total (cost (daily u)) \<and> 0 \<le> tokens (daily u)
       \<and> 0 \<le> used (cost (monthly u)) \<and> 0 \<le> total (cost (monthly u)) \<and> 0 \<le> tokens (monthly u)
       \<and> 0 \<le> used (cost (total_usage u)) \<and> 0 \<le> total (cost (total_usage u))
       \<and> 0 \<le> tokens (total_usage u)"
proof -
  from fetchUsageData_Inr [OF assms(1)] obtain apiId stats models reqs1 reqs2 where
    s: "getUserStats net baseUrl apiId reqs1 = (Inr stats, reqs2)"
    and m: "getUserModelStats net baseUrl apiId Monthly reqs2 = (Inr models, reqs')"
    and u: "u = \<lparr>daily =
                   \<lparr>cost = \<lparr>used = or_zero (currentDailyCost (limits stats)),
                             total = or_zero (dailyCostLimit (limits stats))\<rparr>,
                    tokens = or_zero (usage_allTokens stats)\<rparr>,
                 monthly =
                   \<lparr>cost = \<lparr>used = acc_cost (monthlyTotals models), total = 0\<rparr>,
                    tokens = acc_tokens (monthlyTotals models)\<rparr>,
                 total_usage =
                   \<lparr>cost = \<lparr>used = or_zero (currentTotalCost (limits stats)),
                             total = or_zero (totalCostLimit (limits stats))\<rparr>,
                    tokens = or_zero (usage_allTokens stats)\<rparr>,
                 lastUpdate = done, error = None\<rparr>"
    by blast
  from s obtain ok status d where "user_stats net baseUrl apiId = Response ok status (Inr d)"
    "data d = Some stats"
    by (auto simp: getUserStats_def Let_def split: http.splits sum.splits option.splits if_splits)
  then have ns: "nonneg_stats stats" by (rule assms(2))
  from m obtain ok' status' d' where
    "user_model_stats net baseUrl apiId Monthly = Response ok' status' (Inr d')"
    "data d' = Some models"
    by (auto simp: getUserModelStats_def Let_def
        split: http.splits sum.splits option.splits if_splits)
  then have nm: "list_all nonneg_model models" by (rule assms(3))
  have zr: "0 \<le> or_zero x" if "nonneg x" for x :: "real option"
    using that by (cases x) (simp_all add: or_zero_def nonneg_def)
  have zi: "0 \<le> or_zero x" if "nonneg x" for x :: "int option"
    using that by (cases x) (simp_all add: or_zero_def nonneg_def)
  have "\<forall>x \<in> set (map entry_cost models). 0 \<le> x"
    and "\<forall>x \<in> set (map entry_tokens models). 0 \<le> x"
    using nm by (auto simp: list_all_iff nonneg_model_def)
  then have "0 \<le> foldl fadd 0 (map entry_cost models)"
    and "0 \<le> foldl fadd_int 0 (map entry_tokens models)"
    by (simp_all add: foldl_fadd_nonneg foldl_fadd_int_nonneg)
  then have "0 \<le> acc_cost (monthlyTotals models)" "0 \<le> acc_tokens (monthlyTotals models)"
    by (simp_all add: monthlyTotals_folds)
  with ns zr zi show ?thesis
    by (simp add: u nonneg_stats_def)
qed

theorem fetchUsageData_nonneg_witness:
  "fetchUsageData remote_up 1200 ''https://crs.example'' ''cr_key'' []
     = (Inr fetched_snapshot, fetch_requests)
   \<and> nonneg_stats example_stats \<and> list_all nonneg_model example_models
   \<and> 0 \<le> used (cost (daily fetched_snapshot)) \<and> 0 \<le> total (cost (daily fetched_snapshot))
   \<and> 0 \<le> tokens (daily fetched_snapshot)
   \<and> 0 \<le> used (cost (monthly fetched_snapshot)) \<and> 0 \<le> total (cost (monthly fetched_snapshot))
   \<and> 0 \<le> tokens (monthly fetched_snapshot)
   \<and> 0 \<le> used (cost (total_usage fetched_snapshot))
   \<and> 0 \<le> total (cost (total_usage fetched_snapshot))
   \<and> 0 \<le> tokens (total_usage fetched_snapshot)"
proof -
  have s: "nonneg_stats example_stats"
    by (simp add: nonneg_stats_def nonneg_def example_stats_def usage_allTokens_def)
  have m: "list_all nonneg_model example_models"
    by (simp add: nonneg_model_def example_models_def entry_tokens_def entry_cost_def)
  have h2: "nonneg_stats stats"
    if "user_stats remote_up ''https://crs.example'' apiId = Response ok status (Inr d)"
      "data d = Some stats" for apiId ok status d stats
    using that s by (auto simp: remote_up_def)
  have h3: "list_all nonneg_model models"
    if "user_model_stats remote_up ''https://crs.example'' apiId Monthly
          = Response ok status (Inr d)" "data d = Some models" for apiId ok status d models
    using that m by (auto simp: remote_up_def)
  from fetchUsageData_nonneg [OF remote_up_fetch h2 h3] remote_up_fetch s m
  show ?thesis by simp
qed

theorem fetchUsageData_negative_counterexample:
  "fst (fetchUsageData remote_credit 1200 ''https://crs.example'' ''cr_key'' [])
     = Inr (fetched_snapshot\<lparr>daily := \<lparr>cost = \<lparr>used = - 1, total = 10\<rparr>, tokens = 50000\<rparr>\<rparr>)
   \<and> used (cost (daily (fetched_snapshot
        \<lparr>daily := \<lparr>cost = \<lparr>used = - 1, total = 10\<rparr>, tokens = 50000\<rparr>\<rparr>))) < 0"
  by (simp add: fetchUsageData_def getApiId_def getUserStats_def getUserModelStats_def
      remote_credit_def remote_up_def example_stats_def monthlyTotals_example
      or_zero_def usage_allTokens_def fetched_snapshot_def)

section \<open>The refresh and the display\<close>

lemma showError_fields:
  "item_text (showError m i) = ''$(error) Error''
   \<and> backgroundColor (showError m i) = Some ''statusBarItem.errorBackground''
   \<and> tooltip (showError m i) = Markdown (''**CRS Status Error**'' @ [CHR 0x0A, CHR 0x0A] @ m)
   \<and> command (showError m i) = command i"
  by (simp add: showError_def)

lemma updateTooltip_tooltip:
  "updateTooltip cfg u i = (None, i') \<Longrightarrow>
   \<exists>d m t. tooltip i' = UsageMarkdown d m t (lastUpdate u) \<and> backgroundColor i' = None"
  by (auto simp: updateTooltip_def Let_def split: sum.splits)

text \<open>
  C3 (as the code has it). In a configured extension with a status bar, a refresh whose
  \<open>getUsageInfo\<close> returns a snapshot with a non-empty \<open>error\<close>, as the soft-error
  fallback does, throws that message and ends in the hard Error state: the text
  \<open>$(error) Error\<close>, the error background and a tooltip that holds only the message; the
  stale figures are not shown. So a non-forced refresh over a cached snapshot past its
  TTL whose fetch fails with a non-empty message shows the Error state. An error that
  \<open>getUsageInfo\<close> propagates gives the Error state as well. The usage tooltip with the
  figures is shown only for a snapshot whose \<open>error\<close> is absent or empty, when its
  progress bars can be drawn.
\<close>

theorem refreshUsageData_display:
  fixes ext :: extension
  defines "B \<equiv> crsStatus_baseUrl (configuration ext)"
    and "K \<equiv> crsStatus_apiKey (configuration ext)"
  assumes "statusBarManager ext = Some item" and "isConfigured (configuration ext)"
  shows "(\<forall>u c1 m. getUsageInfo net now later B K
              (if forceRefresh then clearCache (usage_module ext) else usage_module ext)
              = (Inr u, c1) \<and> error u = Some m \<and> m \<noteq> [] \<longrightarrow>
            refreshUsageData net now later forceRefresh ext
              = ext\<lparr>statusBarManager := Some (showError m (showLoading item)),
                    usage_module := c1\<rparr>
            \<and> item_text (showError m (showLoading item)) = ''$(error) Error''
            \<and> tooltip (showError m (showLoading item))
                = Markdown (''**CRS Status Error**'' @ [CHR 0x0A, CHR 0x0A] @ m))
       \<and> (\<forall>c m reqs'. \<not> forceRefresh \<and> cachedResult (usage_module ext) = Some c
              \<and> \<not> now - lastFetchTime (usage_module ext) < CACHE_TTL_MS
              \<and> fetchUsageData net later B K (requests (usage_module ext))
                  = (Inl (Error m), reqs')
              \<and> m \<noteq> [] \<longrightarrow>
            statusBarManager (refreshUsageData net now later forceRefresh ext)
              = Some (showError m (showLoading item)))
       \<and> (\<forall>e c1. getUsageInfo net now later B K
              (if forceRefresh then clearCache (usage_module ext) else usage_module ext)
              = (Inl e, c1) \<longrightarrow>
            refreshUsageData net now later forceRefresh ext
              = ext\<lparr>statusBarManager :=
                      Some (showError (case e of Error m \<Rightarrow> m | NonError \<Rightarrow> ''Unknown error'')
                              (showLoading item)),
                    usage_module := c1\<rparr>)
       \<and> (\<forall>u c1 item2. getUsageInfo net now later B K
              (if forceRefresh then clearCache (usage_module ext) else usage_module ext)
              = (Inr u, c1) \<and> (error u = None \<or> error u = Some [])
              \<and> updateTooltip (configuration ext) u (showReady (showLoading item))
                  = (None, item2) \<longrightarrow>
            refreshUsageData net now later forceRefresh ext
              = ext\<lparr>statusBarManager := Some item2, usage_module := c1\<rparr>
            \<and> (\<exists>d m t. tooltip item2 = UsageMarkdown d m t (lastUpdate u)))"
proof (intro conjI allI impI)
  fix u c1 m
  assume a: "getUsageInfo net now later B K
              (if forceRefresh then clearCache (usage_module ext) else usage_module ext)
              = (Inr u, c1) \<and> error u = Some m \<and> m \<noteq> []"
  with assms show "refreshUsageData net now later forceRefresh ext
              = ext\<lparr>statusBarManager := Some (showError m (showLoading item)),
                    usage_module := c1\<rparr>"
    by (simp add: refreshUsageData_def Let_def)
  show "item_text (showError m (showLoading item)) = ''$(error) Error''"
    and "tooltip (showError m (showLoading item))
           = Markdown (''**CRS Status Error**'' @ [CHR 0x0A, CHR 0x0A] @ m)"
    using showError_fields [of m "showLoading item"] by simp_all
next
  fix c m reqs'
  assume a: "\<not> forceRefresh \<and> cachedResult (usage_module ext) = Some c
              \<and> \<not> now - lastFetchTime (usage_module ext) < CACHE_TTL_MS
              \<and> fetchUsageData net later B K (requests (usage_module ext))
                  = (Inl (Error m), reqs')
              \<and> m \<noteq> []"
  have ne: "B \<noteq> []" "K \<noteq> []"
    using assms by (auto simp: isConfigured_def)
  have "getUsageInfo net now later B K (usage_module ext)
          = (Inr (c\<lparr>lastUpdate := later, error := Some m\<rparr>),
             (usage_module ext)\<lparr>requests := reqs'\<rparr>)"
    using a ne by (simp add: getUsageInfo_def)
  with a assms show "statusBarManager (refreshUsageData net now later forceRefresh ext)
              = Some (showError m (showLoading item))"
    by (simp add: refreshUsageData_def Let_def)
next
  fix e c1
  assume "getUsageInfo net now later B K
              (if forceRefresh then clearCache (usage_module ext) else usage_module ext)
              = (Inl e, c1)"
  with assms show "refreshUsageData net now later forceRefresh ext
              = ext\<lparr>statusBarManager :=
                      Some (showError (case e of Error m \<Rightarrow> m | NonError \<Rightarrow> ''Unknown error'')
                              (showLoading item)),
                    usage_module := c1\<rparr>"
    by (simp add: refreshUsageData_def Let_def)
next
  fix u c1 item2
  assume a: "getUsageInfo net now later B K
              (if forceRefresh then clearCache (usage_module ext) else usage_module ext)
              = (Inr u, c1) \<and> (error u = None \<or> error u = Some [])
              \<and> updateTooltip (configuration ext) u (showReady (showLoading item))
                  = (None, item2)"
  with assms show "refreshUsageData net now later forceRefresh ext
              = ext\<lparr>statusBarManager := Some item2, usage_module := c1\<rparr>"
    by (auto simp: refreshUsageData_def Let_def)
  from a updateTooltip_tooltip [of "configuration ext" u "showReady (showLoading item)" item2]
  show "\<exists>d m t. tooltip item2 = UsageMarkdown d m t (lastUpdate u)"
    by blast
qed

lemma updateTooltip_example:
  "updateTooltip example_config example_snapshot (showReady (showLoading new_StatusBarManager))
     = (None, ready_item)"
proof -
  have b: "generateProgressBar 80 100 25
             = Inr (Some \<lparr>bar = replicate 20 DarkShade @ replicate 5 LightShade,
                          bar_text = ''80.0%''\<rparr>)"
    "generateProgressBar 0 0 25 = Inr None"
    "generateProgressBar 450 500 25
             = Inr (Some \<lparr>bar = replicate 23 DarkShade @ replicate 2 LightShade,
                          bar_text = ''90.0%''\<rparr>)"
    by (simp_all add: generateProgressBar_def Math_round_def repeat_str_def toFixed_def
        showNat.simps digit_def)
  have t: "formatStatusBarText example_snapshot True = ''$(credit-card) 80.0% ($80.0/$100.0)''"
    by (simp add: formatStatusBarText_def getMostConstrainedLimit_def pushed_limits_def
        example_snapshot_def toFixed_def showNat.simps digit_def)
  have c: "formatCurrency 80 = ''$80.00''" "formatCurrency 100 = ''$100.00''"
    "formatCurrency 0 = ''$0.00''" "formatCurrency 450 = ''$450.00''"
    "formatCurrency 500 = ''$500.00''"
    by (simp_all add: formatCurrency_def toFixed_def showNat.simps digit_def)
  have k: "formatTokens 50000 = ''50.00K''" "formatTokens 0 = ''0''"
    by (simp_all add: formatTokens_def toFixed_def showInt_def showNat.simps digit_def)
  have s: "section_of ''Daily'' (daily example_snapshot)
             (Some \<lparr>bar = replicate 20 DarkShade @ replicate 5 LightShade,
                    bar_text = ''80.0%''\<rparr>)
           = \<lparr>heading = ''Daily'', right_cell = ''80.0%'',
              bar_row = Some (replicate 20 DarkShade @ replicate 5 LightShade),
              cost_text = ''$80.00 / $100.00'', tokens_text = ''50.00K''\<rparr>"
    "section_of ''Monthly'' (monthly example_snapshot) None
           = \<lparr>heading = ''Monthly'', right_cell = ''Unlimited'', bar_row = None,
              cost_text = ''$0.00'', tokens_text = ''0''\<rparr>"
    "section_of ''Total'' (total_usage example_snapshot)
             (Some \<lparr>bar = replicate 23 DarkShade @ replicate 2 LightShade,
                    bar_text = ''90.0%''\<rparr>)
           = \<lparr>heading = ''Total'', right_cell = ''90.0%'',
              bar_row = Some (replicate 23 DarkShade @ replicate 2 LightShade),
              cost_text = ''$450.00 / $500.00'', tokens_text = ''50.00K''\<rparr>"
    using c k by (simp_all add: section_of_def example_snapshot_def)
  have u: "used (cost (daily example_snapshot)) = 80" "total (cost (daily example_snapshot)) = 100"
    "used (cost (monthly example_snapshot)) = 0" "total (cost (monthly example_snapshot)) = 0"
    "used (cost (total_usage example_snapshot)) = 450"
    "total (cost (total_usage example_snapshot)) = 500"
    "lastUpdate example_snapshot = 1000"
    by (simp_all add: example_snapshot_def)
  show ?thesis
    unfolding updateTooltip_def Let_def u b
    by (simp add: s t example_config_def u showReady_def showLoading_def
        new_StatusBarManager_def ready_item_def)
qed

text \<open>
  The filled cache is 19 seconds old and the service is down: the fallback snapshot
  comes back with its figures and the message, and the status bar shows the Error state,
  as it does after a forced refresh, where the error is propagated. With the cache half
  a second old the cached snapshot has no error and its figures are shown.
\<close>

theorem refreshUsageData_display_witness:
  "statusBarManager example_extension = Some new_StatusBarManager
   \<and> isConfigured (configuration example_extension)
   \<and> cachedResult (usage_module example_extension) = Some example_snapshot
   \<and> \<not> 20000 - lastFetchTime (usage_module example_extension) < CACHE_TTL_MS
   \<and> statusBarManager (refreshUsageData remote_down 20000 20001 False example_extension)
       = Some (showError ''fetch failed'' (showLoading new_StatusBarManager))
   \<and> statusBarManager (refreshUsageData remote_down 1500 1501 True example_extension)
       = Some (showError ''fetch failed'' (showLoading new_StatusBarManager))
   \<and> statusBarManager (refreshUsageData remote_down 1500 1501 False example_extension)
       = Some ready_item"
proof -
  have h1: "statusBarManager example_extension = Some new_StatusBarManager"
    and h2: "isConfigured (configuration example_extension)"
    and h3: "cachedResult (usage_module example_extension) = Some example_snapshot"
    and h4: "\<not> 20000 - lastFetchTime (usage_module example_extension) < CACHE_TTL_MS"
    by (simp_all add: example_extension_def example_config_def isConfigured_def
        filled_cache_def CACHE_TTL_MS_def)
  have f: "fetchUsageData remote_down 20001
             (crsStatus_baseUrl (configuration example_extension))
             (crsStatus_apiKey (configuration example_extension))
             (requests (usage_module example_extension))
           = (Inl (Error ''fetch failed''),
              [(''https://crs.example/apiStats/api/get-key-id'', ApiKeyBody ''cr_key'')])"
    using remote_down_fetch [of 20001 "[]"]
    by (simp add: example_extension_def example_config_def filled_cache_def)
  have n: "''fetch failed'' \<noteq> []" by simp
  from refreshUsageData_display [OF h1 h2, of remote_down 20000 20001 False] h3 h4 f n
  have 1: "statusBarManager (refreshUsageData remote_down 20000 20001 False example_extension)
       = Some (showError ''fetch failed'' (showLoading new_StatusBarManager))"
    by blast
  have g2: "getUsageInfo remote_down 1500 1501
              (crsStatus_baseUrl (configuration example_extension))
              (crsStatus_apiKey (configuration example_extension))
              (if True then clearCache (usage_module example_extension)
               else usage_module example_extension)
            = (Inl (Error ''fetch failed''),
               \<lparr>cachedResult = None, lastFetchTime = 0,
                requests = [(''https://crs.example/apiStats/api/get-key-id'',
                             ApiKeyBody ''cr_key'')]\<rparr>)"
    using remote_down_fetch [of 1501 "[]"]
    by (simp add: getUsageInfo_def clearCache_def example_extension_def example_config_def
        filled_cache_def)
  from refreshUsageData_display [OF h1 h2, of remote_down 1500 1501 True] g2
  have "refreshUsageData remote_down 1500 1501 True example_extension
          = example_extension\<lparr>statusBarManager :=
              Some (showError (case Error ''fetch failed'' of Error m \<Rightarrow> m
                               | NonError \<Rightarrow> ''Unknown error'')
                      (showLoading new_StatusBarManager)),
              usage_module := \<lparr>cachedResult = None, lastFetchTime = 0,
                requests = [(''https://crs.example/apiStats/api/get-key-id'',
                             ApiKeyBody ''cr_key'')]\<rparr>\<rparr>"
    by blast
  then have 2: "statusBarManager (refreshUsageData remote_down 1500 1501 True example_extension)
       = Some (showError ''fetch failed'' (showLoading new_StatusBarManager))"
    by simp
  have g3: "getUsageInfo remote_down 1500 1501
              (crsStatus_baseUrl (configuration example_extension))
              (crsStatus_apiKey (configuration example_extension))
              (if False then clearCache (usage_module example_extension)
               else usage_module example_extension)
            = (Inr example_snapshot, filled_cache)"
    by (simp add: getUsageInfo_def example_extension_def example_config_def
        filled_cache_def CACHE_TTL_MS_def)
  have e3: "error example_snapshot = None \<or> error example_snapshot = Some []"
    by (simp add: example_snapshot_def)
  have u3: "updateTooltip (configuration example_extension) example_snapshot
              (showReady (showLoading new_StatusBarManager)) = (None, ready_item)"
    using updateTooltip_example by (simp add: example_extension_def)
  from refreshUsageData_display [OF h1 h2, of remote_down 1500 1501 False] g3 e3 u3
  have "refreshUsageData remote_down 1500 1501 False example_extension
          = example_extension\<lparr>statusBarManager := Some ready_item,
                               usage_module := filled_cache\<rparr>"
    by blast
  then have 3: "statusBarManager (refreshUsageData remote_down 1500 1501 False example_extension)
       = Some ready_item"
    by simp
  from h1 h2 h3 h4 1 2 3 show ?thesis by simp
qed

theorem refreshUsageData_fallback_counterexample:
  "fst (getUsageInfo remote_down 20000 20001 ''https://crs.example'' ''cr_key'' filled_cache)
     = Inr (example_snapshot\<lparr>lastUpdate := 20001, error := Some ''fetch failed''\<rparr>)
   \<and> statusBarManager (refreshUsageData remote_down 20000 20001 False example_extension)
       = Some \<lparr>item_text = ''$(error) Error'',
               tooltip = Markdown (''**CRS Status Error**'' @ [CHR 0x0A, CHR 0x0A]
                                    @ ''fetch failed''),
               backgroundColor = Some ''statusBarItem.errorBackground'',
               command = ''crsStatus.refresh''\<rparr>"
  by (simp add: refreshUsageData_def getUsageInfo_def remote_down_fetch example_extension_def
      example_config_def filled_cache_def isConfigured_def CACHE_TTL_MS_def showError_def
      showLoading_def new_StatusBarManager_def)

end
